theory Spec2Isabelle
  imports Complex_Main "HOL-Library.AList"
begin

section \<open>Zero2One: the progression and rules engine\<close>

text \<open>
  A shallow embedding of the rules engine of the Zero2One progression tracker:
  \<^item> \<^verbatim>\<open>app/models/tasks.py\<close> (\<^verbatim>\<open>TaskManager\<close>): severity tiers, the inactivity
    penalty, completing and removing tasks;
  \<^item> \<^verbatim>\<open>app/models/jobs.py\<close> (\<^verbatim>\<open>JobSystem\<close>): the job catalogue, eligibility, acceptance;
  \<^item> \<^verbatim>\<open>app/models/achievement_chains.py\<close> (\<^verbatim>\<open>AchievementChainSystem\<close>): chains of stages;
  \<^item> \<^verbatim>\<open>app/services/progress_tracker.py\<close> (\<^verbatim>\<open>ProgressTracker.calculate_rank\<close>).

  Conventions of the embedding.
  \<^item> Python numbers (ints and floats are mixed freely by the program) are exact rationals;
    the rounding of binary floating point is not modelled.
  \<^item> A Python \<^verbatim>\<open>dict\<close> is an association list in insertion order: \<open>map_of\<close> reads a key,
    \<open>AList.update\<close> assigns (in place for an existing key, at the end for a new one) and
    \<open>AList.delete\<close> removes. A loop that rewrites the value of every key of a dict is a
    \<open>map\<close> over the entries.
  \<^item> A key that the program reads with \<^verbatim>\<open>.get(key, default)\<close> or guards with
    \<^verbatim>\<open>key in d\<close> is an optional field; a key read with \<^verbatim>\<open>d[key]\<close> raises \<open>KeyError\<close>
    when absent.
  \<^item> Mutation of \<^verbatim>\<open>st.session_state\<close> and of \<^verbatim>\<open>user_data\<close> is explicit state passing. A
    function whose body is wrapped in \<^verbatim>\<open>try: ... except Exception\<close> returns the error it
    caught (if any) together with the state as it was when the error was raised.
  \<^item> \<^verbatim>\<open>datetime.now()\<close> and the draws of \<^verbatim>\<open>random\<close> are arguments. A point in time is a
    number of microseconds counted from 2000-01-01T00:00:00.
  \<^item> Calls that only render (\<^verbatim>\<open>st.warning\<close>, \<^verbatim>\<open>st.success\<close>, ...) or hand the state to the
    store (\<^verbatim>\<open>save_state\<close>) are left out, and so are display-only fields (icons,
    descriptions).
\<close>

subsection \<open>Common types\<close>

type_synonym num = rat
type_synonym 'v pydict = "(string \<times> 'v) list"
type_synonym datetime = int

datatype py_error = KeyError | IndexError | ZeroDivisionError | ValueError | AttributeError

definition usec_per_day :: int where
  "usec_per_day = 86400000000"

text \<open>\<^verbatim>\<open>t.date()\<close>, as a day number; \<^verbatim>\<open>(a.date() - b.date()).days\<close> is the difference.\<close>

definition date_of :: "datetime \<Rightarrow> int" where
  "date_of t = t div usec_per_day"

text \<open>\<^verbatim>\<open>timedelta(hours=h)\<close>\<close>

definition hours :: "int \<Rightarrow> int" where
  "hours h = h * 3600000000"

text \<open>\<^verbatim>\<open>d.get(k, default)\<close>\<close>

definition dict_get :: "'v pydict \<Rightarrow> string \<Rightarrow> 'v \<Rightarrow> 'v" where
  "dict_get d k dflt = (case map_of d k of None \<Rightarrow> dflt | Some v \<Rightarrow> v)"

subsection \<open>Severity tiers (\<^verbatim>\<open>TaskManager.severity_levels\<close>, \<^verbatim>\<open>determine_severity\<close>)\<close>

text \<open>The upper end of a range of days is a number or \<^verbatim>\<open>float('inf')\<close>.\<close>

datatype bound = Finite int | Infinity

fun le_bound :: "int \<Rightarrow> bound \<Rightarrow> bool" where
  "le_bound d (Finite h) = (d \<le> h)"
| "le_bound d Infinity = True"

record level_data =
  range :: "int \<times> bound"
  penalty :: "int \<times> int"
  message :: string

definition severity_levels :: "(int \<times> level_data) list" where
  "severity_levels =
    [(1, \<lparr>range = (1, Finite 3), penalty = (1, 2), message = ''Minor Setback''\<rparr>),
     (2, \<lparr>range = (4, Finite 7), penalty = (3, 5), message = ''Significant Decline''\<rparr>),
     (3, \<lparr>range = (8, Infinity), penalty = (6, 8), message = ''Critical Failure''\<rparr>)]"

text \<open>
  \<^verbatim>\<open>determine_severity\<close> returns dicts of two shapes: from inside the loop a dict with the
  keys \<^verbatim>\<open>level\<close>, \<^verbatim>\<open>penalty_range\<close>, \<^verbatim>\<open>message\<close>; from the fallback the raw table entry
  \<^verbatim>\<open>severity_levels[3]\<close> with the keys \<^verbatim>\<open>range\<close>, \<^verbatim>\<open>penalty\<close>, \<^verbatim>\<open>message\<close>.
\<close>

datatype severity =
    Severity (level: int) (penalty_range: "int \<times> int") (sev_message: string)
  | Fallback level_data

fun severity_loop :: "(int \<times> level_data) list \<Rightarrow> int \<Rightarrow> severity option" where
  "severity_loop [] missed_days = None"
| "severity_loop ((lvl, data) # rest) missed_days =
     (if fst (range data) \<le> missed_days \<and> le_bound missed_days (snd (range data))
      then Some (Severity lvl (penalty data) (message data))
      else severity_loop rest missed_days)"

definition determine_severity :: "int \<Rightarrow> py_error + severity" where
  "determine_severity missed_days =
     (case severity_loop severity_levels missed_days of
        Some s \<Rightarrow> Inr s
      | None \<Rightarrow> (case map_of severity_levels 3 of
                   None \<Rightarrow> Inl KeyError
                 | Some data \<Rightarrow> Inr (Fallback data)))"

subsection \<open>Ranks (\<^verbatim>\<open>ProgressTracker.calculate_rank\<close>)\<close>

definition rank_thresholds :: "num pydict" where
  "rank_thresholds =
    [(''E'', 0), (''D'', 85), (''C'', 170), (''B'', 255),
     (''A'', 340), (''S'', 425), (''SS'', 510), (''SSS'', 595)]"

text \<open>
  The loop over \<^verbatim>\<open>enumerate(ranks)\<close>: \<open>i\<close> is the index of the head of the remaining
  entries, the pair is (\<^verbatim>\<open>current_rank\<close>, \<^verbatim>\<open>next_rank\<close>). The read \<^verbatim>\<open>ranks[i + 1]\<close> is
  guarded by \<^verbatim>\<open>i < len(ranks) - 1\<close>, so it is in range.
\<close>

fun rank_loop :: "num pydict \<Rightarrow> num \<Rightarrow> nat \<Rightarrow> num pydict \<Rightarrow> string \<times> string \<Rightarrow> string \<times> string" where
  "rank_loop ranks v i [] cn = cn"
| "rank_loop ranks v i ((rank, threshold) # rest) cn =
     rank_loop ranks v (Suc i) rest
       (if v \<ge> threshold
        then (rank, if int i < int (length ranks) - 1 then fst (ranks ! (i + 1)) else rank)
        else cn)"

definition calculate_rank :: "num \<Rightarrow> py_error + (string \<times> string \<times> num)" where
  "calculate_rank v =
     (let (current_rank, next_rank) = rank_loop rank_thresholds v 0 rank_thresholds (''E'', ''D'')
      in if current_rank \<noteq> ''SSS'' then
           (case map_of rank_thresholds current_rank of
              None \<Rightarrow> Inl KeyError
            | Some current_threshold \<Rightarrow>
                (case map_of rank_thresholds next_rank of
                   None \<Rightarrow> Inl KeyError
                 | Some next_threshold \<Rightarrow>
                     if next_threshold - current_threshold = 0 then Inl ZeroDivisionError
                     else Inr (current_rank, next_rank,
                            max 0 (min 1 ((v - current_threshold) / (next_threshold - current_threshold))))))
         else Inr (current_rank, next_rank, 1))"

subsection \<open>State\<close>

text \<open>
  A task, as \<^verbatim>\<open>create_task\<close> builds it. The keys \<^verbatim>\<open>completed\<close> and \<^verbatim>\<open>points\<close> are read with
  \<^verbatim>\<open>.get\<close>, \<^verbatim>\<open>completed_at\<close> appears on completion, \<^verbatim>\<open>attribute\<close> is read with \<^verbatim>\<open>[...]\<close>.
\<close>

record task =
  task_id :: string
  task_name :: string
  task_type :: string
  attribute :: "string option"
  points :: "num option"
  completed :: "bool option"
  completed_at :: "datetime option"
  created_at :: datetime

text \<open>\<^verbatim>\<open>task.get("completed", False)\<close>\<close>

definition is_completed :: "task \<Rightarrow> bool" where
  "is_completed t = (case completed t of None \<Rightarrow> False | Some b \<Rightarrow> b)"

text \<open>\<^verbatim>\<open>st.session_state.tasks\<close>: category \<open>\<rightarrow>\<close> (id \<open>\<rightarrow>\<close> task).\<close>

type_synonym task_store = "task pydict pydict"

text \<open>
  \<^verbatim>\<open>user_data\<close>, with the keys the engine reads. \<^verbatim>\<open>attributes\<close> and \<^verbatim>\<open>streak\<close> are always
  read with \<^verbatim>\<open>[...]\<close> and are written by \<^verbatim>\<open>initialize_new_state\<close>; the other keys may be
  absent. \<^verbatim>\<open>ud_tasks\<close> is the key \<^verbatim>\<open>user_data["tasks"]\<close> that \<^verbatim>\<open>check_task_completion_rate\<close>
  reads (it is not written by \<^verbatim>\<open>initialize_new_state\<close>).
\<close>

record user_data =
  attributes :: "num pydict"
  streak :: int
  last_active :: "datetime option"
  makeup_deadline :: "datetime option"
  multipliers :: "num pydict option"
  current_job :: "string option"
  job_history :: "(string \<times> datetime) list option"
  ud_tasks :: "task_store option"

record session =
  user :: user_data
  tasks :: task_store

text \<open>\<^verbatim>\<open>DataManager.initialize_new_state\<close>, restricted to the keys above.\<close>

definition initialize_new_state :: "datetime \<Rightarrow> session" where
  "initialize_new_state now =
     \<lparr>user = \<lparr>attributes = [(''Health'', 0), (''Physical'', 0), (''Intelligence'', 0),
                            (''Spiritual'', 0), (''Creativity'', 0), (''Resilience'', 0)],
              streak = 0,
              last_active = Some now,
              makeup_deadline = None,
              multipliers = Some [(''streak'', 1), (''event'', 1), (''job'', 1)],
              current_job = None,
              job_history = Some [],
              ud_tasks = None\<rparr>,
      tasks = [(''daily'', []), (''weekly'', []), (''special'', []), (''penalty'', [])]\<rparr>"

subsection \<open>Completing and removing tasks (\<^verbatim>\<open>TaskManager.complete_task\<close>, \<^verbatim>\<open>remove_task\<close>)\<close>

text \<open>
  The branch \<^verbatim>\<open>complete_task\<close> leaves by. The Python returns \<^verbatim>\<open>True\<close> for \<open>Completed\<close> and
  \<^verbatim>\<open>False\<close> for every other branch; \<open>AlreadyCompleted\<close> is the branch that shows the
  warning "Task already completed!", \<open>Failed\<close> the \<^verbatim>\<open>except\<close> handler.
\<close>

datatype completion = Completed | NoCategory | NotFound | AlreadyCompleted | Failed py_error

definition returned :: "completion \<Rightarrow> bool" where
  "returned c = (c = Completed)"

text \<open>
  The argument \<^verbatim>\<open>task\<close> of the Python is never read and is dropped. The stored task is
  marked completed before its attribute is read: when the key \<^verbatim>\<open>attribute\<close> is absent, the
  handler is entered with the task already marked.
\<close>

definition complete_task :: "datetime \<Rightarrow> string \<Rightarrow> string \<Rightarrow> session \<Rightarrow> completion \<times> session" where
  "complete_task now tid ttype s =
     (case map_of (tasks s) ttype of
        None \<Rightarrow> (NoCategory, s)
      | Some category \<Rightarrow>
          (case map_of category tid of
             None \<Rightarrow> (NotFound, s)
           | Some stored_task \<Rightarrow>
               if is_completed stored_task then (AlreadyCompleted, s)
               else
                 let stored_task' = stored_task\<lparr>completed := Some True, completed_at := Some now\<rparr>;
                     s' = s\<lparr>tasks := AList.update ttype (AList.update tid stored_task' category) (tasks s)\<rparr>;
                     job_multiplier = dict_get (case multipliers (user s') of None \<Rightarrow> [] | Some m \<Rightarrow> m) ''job'' 1;
                     base_points = (case points stored_task' of None \<Rightarrow> 1 | Some p \<Rightarrow> p);
                     final_points = base_points * job_multiplier
                 in (case attribute stored_task' of
                       None \<Rightarrow> (Failed KeyError, s')
                     | Some attr \<Rightarrow>
                         let current_value = dict_get (attributes (user s')) attr 0
                         in (Completed,
                             s'\<lparr>user := (user s')\<lparr>attributes :=
                                   AList.update attr (current_value + final_points) (attributes (user s'))\<rparr>\<rparr>))))"

text \<open>
  \<^verbatim>\<open>del tasks[task_type][task_id]\<close> raises \<open>KeyError\<close> for an id that is not in the category;
  the handler of \<^verbatim>\<open>remove_task\<close> catches it and reports "Error removing task".
\<close>

definition remove_task :: "string \<Rightarrow> string \<Rightarrow> session \<Rightarrow> py_error option \<times> session" where
  "remove_task tid ttype s =
     (case map_of (tasks s) ttype of
        None \<Rightarrow> (None, s)
      | Some category \<Rightarrow>
          (case map_of category tid of
             None \<Rightarrow> (Some KeyError, s)
           | Some t \<Rightarrow> (None, s\<lparr>tasks := AList.update ttype (AList.delete tid category) (tasks s)\<rparr>)))"

subsection \<open>The inactivity penalty (\<^verbatim>\<open>TaskManager.update_tasks\<close>)\<close>

text \<open>
  One evaluation reads three random values: the argument of \<^verbatim>\<open>random.randint\<close>, of
  \<^verbatim>\<open>random.random\<close> and of \<^verbatim>\<open>random.choice\<close>. \<^verbatim>\<open>randint(a, b)\<close> raises \<open>ValueError\<close> on an
  empty range and \<^verbatim>\<open>choice\<close> raises \<open>IndexError\<close> on an empty list.
\<close>

record draws =
  randint_draw :: nat
  random_draw :: num
  choice_draw :: nat

definition randint :: "int \<Rightarrow> int \<Rightarrow> nat \<Rightarrow> py_error + int" where
  "randint a b n = (if b < a then Inl ValueError else Inr (a + int n mod (b - a + 1)))"

definition choice :: "'a list \<Rightarrow> nat \<Rightarrow> py_error + 'a" where
  "choice xs n = (if xs = [] then Inl IndexError else Inr (xs ! (n mod length xs)))"

text \<open>The default of \<^verbatim>\<open>user_data.get("makeup_deadline", "2000-01-01T00:00:00")\<close>.\<close>

definition default_makeup_deadline :: datetime where
  "default_makeup_deadline = 0"

text \<open>Lines 71-76: the incomplete tasks of all categories.\<close>

definition incomplete_tasks :: "task_store \<Rightarrow> task list" where
  "incomplete_tasks ts =
     concat (map (\<lambda>(ttype, category). filter (\<lambda>t. \<not> is_completed t) (map snd category)) ts)"

text \<open>Lines 102-134: the penalty itself, on one attribute or spread over all of them.\<close>

definition apply_penalties :: "draws \<Rightarrow> severity \<Rightarrow> user_data \<Rightarrow> py_error + user_data" where
  "apply_penalties rnd sev ud =
     (case sev of
        Fallback data \<Rightarrow> Inl KeyError
      | Severity lvl pr msg \<Rightarrow>
          (case randint (fst pr) (snd pr) (randint_draw rnd) of
             Inl e \<Rightarrow> Inl e
           | Inr penalty_points \<Rightarrow>
               if random_draw rnd < 7 / 10 then
                 (case choice (map fst (attributes ud)) (choice_draw rnd) of
                    Inl e \<Rightarrow> Inl e
                  | Inr attr \<Rightarrow>
                      let current_value = dict_get (attributes ud) attr 0
                      in Inr (ud\<lparr>attributes :=
                                AList.update attr (max 0 (current_value - of_int penalty_points))
                                  (attributes ud)\<rparr>))
               else
                 if length (attributes ud) = 0 then Inl ZeroDivisionError
                 else
                   let per_attribute_penalty = of_int penalty_points / of_nat (length (attributes ud))
                   in Inr (ud\<lparr>attributes :=
                             map (\<lambda>(attr, current_value). (attr, max 0 (current_value - per_attribute_penalty)))
                               (attributes ud)\<rparr>)))"

text \<open>Lines 69-143: what happens when at least one calendar day has passed.\<close>

definition penalty_phase :: "datetime \<Rightarrow> draws \<Rightarrow> int \<Rightarrow> task_store \<Rightarrow> user_data \<Rightarrow> py_error + user_data" where
  "penalty_phase now rnd inactive_days ts ud =
     (if incomplete_tasks ts \<noteq> [] then
        (case determine_severity inactive_days of
           Inl e \<Rightarrow> Inl e
         | Inr sev \<Rightarrow>
             if inactive_days = 1 then
               Inr (ud\<lparr>makeup_deadline := Some (now + hours 12)\<rparr>)
             else
               let deadline = (case makeup_deadline ud of None \<Rightarrow> default_makeup_deadline | Some d \<Rightarrow> d)
               in if now > deadline then apply_penalties rnd sev ud else Inr ud)
      else Inr ud)"

text \<open>
  \<^verbatim>\<open>update_tasks\<close> calls \<^verbatim>\<open>self.reset_periodic_tasks(current_time, last_active)\<close>, a method
  that the class does not define. It is the parameter \<open>reset\<close> here: a step on the task
  store that may raise. With the class as it is the call raises, which is
  \<open>reset = (\<lambda>_ _ ts. (Some AttributeError, ts))\<close>. An error leaves \<^verbatim>\<open>last_active\<close> unstamped.
\<close>

definition update_tasks ::
  "(datetime \<Rightarrow> datetime \<Rightarrow> task_store \<Rightarrow> py_error option \<times> task_store) \<Rightarrow>
   datetime \<Rightarrow> draws \<Rightarrow> session \<Rightarrow> py_error option \<times> session" where
  "update_tasks reset now rnd s =
     (let last_act = (case last_active (user s) of None \<Rightarrow> now | Some t \<Rightarrow> t);
          inactive_days = date_of now - date_of last_act
      in if inactive_days > 0 then
           (case penalty_phase now rnd inactive_days (tasks s) (user s) of
              Inl e \<Rightarrow> (Some e, s)
            | Inr ud \<Rightarrow>
                (case reset now last_act (tasks s) of
                   (Some e, ts) \<Rightarrow> (Some e, \<lparr>user = ud, tasks = ts\<rparr>)
                 | (None, ts) \<Rightarrow> (None, \<lparr>user = ud\<lparr>last_active := Some now\<rparr>, tasks = ts\<rparr>)))
         else (None, s\<lparr>user := (user s)\<lparr>last_active := Some now\<rparr>\<rparr>))"

subsection \<open>Jobs (\<^verbatim>\<open>JobSystem\<close>)\<close>

record job =
  rank_requirement :: string
  attribute_requirements :: "num pydict"
  perk_multiplier :: num
  tier :: string

definition mk_job :: "string \<Rightarrow> num pydict \<Rightarrow> num \<Rightarrow> string \<Rightarrow> job" where
  "mk_job r reqs m t = \<lparr>rank_requirement = r, attribute_requirements = reqs, perk_multiplier = m, tier = t\<rparr>"

definition jobs :: "job pydict" where
  "jobs =
    [(''Master of None'', mk_job ''E'' [] 1 ''low''),
     (''Stray Dog'', mk_job ''E'' [(''resilience'', 50)] (11 / 10) ''low''),
     (''Pugilist'', mk_job ''D'' [(''physical'', 85), (''resilience'', 50)] (115 / 100) ''low''),
     (''Swindler'', mk_job ''D'' [(''intelligence'', 85), (''creativity'', 50)] (115 / 100) ''low''),
     (''Apprentice'', mk_job ''D'' [(''intelligence'', 85)] (115 / 100) ''low''),
     (''Duelist'', mk_job ''C'' [(''physical'', 170), (''resilience'', 85)] (12 / 10) ''mid''),
     (''Phantom Jester'', mk_job ''C'' [(''creativity'', 170), (''spiritual'', 85)] (12 / 10) ''mid''),
     (''Marksman'', mk_job ''C'' [(''physical'', 170), (''intelligence'', 85)] (12 / 10) ''mid''),
     (''Nomad'', mk_job ''C'' [(''resilience'', 170), (''spiritual'', 85)] (12 / 10) ''mid''),
     (''Shaman'', mk_job ''C'' [(''spiritual'', 170), (''intelligence'', 85)] (125 / 100) ''mid''),
     (''Iron Sentinel'', mk_job ''B'' [(''physical'', 255), (''resilience'', 170)] (13 / 10) ''advanced''),
     (''Shade Operative'', mk_job ''B'' [(''intelligence'', 255), (''physical'', 170)] (13 / 10) ''advanced''),
     (''Revenant'', mk_job ''B'' [(''spiritual'', 255), (''resilience'', 170)] (13 / 10) ''advanced''),
     (''Battle Hound'', mk_job ''B'' [(''physical'', 255), (''spiritual'', 170)] (135 / 100) ''advanced''),
     (''Order Member'', mk_job ''A''
        [(''intelligence'', 340), (''spiritual'', 255), (''resilience'', 170)] (14 / 10) ''elite''),
     (''Elite Assassin'', mk_job ''A''
        [(''physical'', 340), (''intelligence'', 255), (''resilience'', 170)] (145 / 100) ''elite''),
     (''Shadow Puppeteer'', mk_job ''A''
        [(''creativity'', 340), (''spiritual'', 255), (''intelligence'', 170)] (145 / 100) ''elite''),
     (''The Glitch'', mk_job ''S''
        [(''intelligence'', 425), (''creativity'', 425), (''spiritual'', 340)] (15 / 10) ''special''),
     (''Enigma'', mk_job ''S''
        [(''spiritual'', 425), (''intelligence'', 425), (''resilience'', 340), (''creativity'', 340)]
        (16 / 10) ''special'')]"

definition check_job_requirements :: "job \<Rightarrow> user_data \<Rightarrow> bool" where
  "check_job_requirements j ud =
     list_all (\<lambda>(attr, required_value). dict_get (attributes ud) attr 0 \<ge> required_value)
       (attribute_requirements j)"

definition get_available_jobs :: "user_data \<Rightarrow> string list" where
  "get_available_jobs ud = map fst (filter (\<lambda>(job_name, j). check_job_requirements j ud) jobs)"

text \<open>
  \<^verbatim>\<open>accept_job\<close> sets the current job and the history first; \<^verbatim>\<open>self.jobs[job_name]\<close> and
  \<^verbatim>\<open>user_data["multipliers"]\<close> can then raise \<open>KeyError\<close>, which the handler catches.
\<close>

definition accept_job :: "datetime \<Rightarrow> string \<Rightarrow> user_data \<Rightarrow> py_error option \<times> user_data" where
  "accept_job now job_name ud =
     (let ud1 = ud\<lparr>current_job := Some job_name\<rparr>;
          ud2 = ud1\<lparr>job_history :=
                  Some ((case job_history ud1 of None \<Rightarrow> [] | Some h \<Rightarrow> h) @ [(job_name, now)])\<rparr>
      in case map_of jobs job_name of
           None \<Rightarrow> (Some KeyError, ud2)
         | Some j \<Rightarrow>
             (case multipliers ud2 of
                None \<Rightarrow> (Some KeyError, ud2)
              | Some m \<Rightarrow> (None, ud2\<lparr>multipliers := Some (AList.update ''job'' (perk_multiplier j) m)\<rparr>)))"

subsection \<open>Achievement chains (\<^verbatim>\<open>AchievementChainSystem\<close>)\<close>

text \<open>
  A stage carries its unlock condition, a Python lambda over \<^verbatim>\<open>user_data\<close>. A lambda can
  raise (\<open>KeyError\<close> for a missing attribute or a missing \<^verbatim>\<open>user_data["tasks"]\<close>), so a
  condition yields an error or a truth value.
\<close>

record stage =
  stage_name :: string
  requirement :: "user_data \<Rightarrow> py_error + bool"
  reward :: "num pydict"

text \<open>\<^verbatim>\<open>class AchievementChain\<close>\<close>

record chain =
  chain_id :: string
  chain_name :: string
  stages :: "stage list"
  current_stage :: nat
  chain_completed :: bool
  started_at :: "datetime option"
  chain_completed_at :: "datetime option"

text \<open>\<^verbatim>\<open>user_data["attributes"][a] >= n\<close>\<close>

definition attribute_at_least :: "string \<Rightarrow> num \<Rightarrow> user_data \<Rightarrow> py_error + bool" where
  "attribute_at_least a n ud =
     (case map_of (attributes ud) a of None \<Rightarrow> Inl KeyError | Some v \<Rightarrow> Inr (v \<ge> n))"

text \<open>Python's \<^verbatim>\<open>p and q\<close>: \<open>q\<close> is evaluated only when \<open>p\<close> is true.\<close>

definition py_and ::
  "(user_data \<Rightarrow> py_error + bool) \<Rightarrow> (user_data \<Rightarrow> py_error + bool) \<Rightarrow> user_data \<Rightarrow> py_error + bool" where
  "py_and p q ud = (case p ud of Inl e \<Rightarrow> Inl e | Inr b \<Rightarrow> if b then q ud else Inr False)"

definition check_task_completion_rate :: "num \<Rightarrow> user_data \<Rightarrow> py_error + bool" where
  "check_task_completion_rate required_rate ud =
     (case ud_tasks ud of
        None \<Rightarrow> Inl KeyError
      | Some ts \<Rightarrow>
          (case map_of ts ''daily'' of
             None \<Rightarrow> Inl KeyError
           | Some daily \<Rightarrow>
               (case map_of ts ''weekly'' of
                  None \<Rightarrow> Inl KeyError
                | Some weekly \<Rightarrow>
                    let all_tasks = map snd daily @ map snd weekly;
                        total_tasks = length all_tasks;
                        completed_tasks = length (filter is_completed all_tasks)
                    in Inr (if total_tasks > 0
                            then of_nat completed_tasks / of_nat total_tasks \<ge> required_rate
                            else False))))"

text \<open>The catalogue \<^verbatim>\<open>self.chains\<close>: chain id, name, stages.\<close>

definition chains :: "(string \<times> string \<times> stage list) list" where
  "chains =
    [(''physical_mastery'', ''Physical Mastery'',
       [\<lparr>stage_name = ''Beginner Athlete'',
         requirement = attribute_at_least ''Physical'' 100,
         reward = [(''Physical'', 10)]\<rparr>,
        \<lparr>stage_name = ''Intermediate Athlete'',
         requirement = attribute_at_least ''Physical'' 250,
         reward = [(''Physical'', 25), (''Health'', 10)]\<rparr>,
        \<lparr>stage_name = ''Advanced Athlete'',
         requirement = attribute_at_least ''Physical'' 500,
         reward = [(''all_attributes'', 20)]\<rparr>]),
     (''mind_master'', ''Mind Master'',
       [\<lparr>stage_name = ''Knowledge Seeker'',
         requirement = attribute_at_least ''Intelligence'' 100,
         reward = [(''Intelligence'', 10)]\<rparr>,
        \<lparr>stage_name = ''Scholar'',
         requirement = py_and (attribute_at_least ''Intelligence'' 200)
                              (attribute_at_least ''Creativity'' 100),
         reward = [(''Intelligence'', 20), (''Creativity'', 10)]\<rparr>,
        \<lparr>stage_name = ''Sage'',
         requirement = py_and (attribute_at_least ''Intelligence'' 400)
                         (py_and (attribute_at_least ''Creativity'' 200)
                                 (attribute_at_least ''Spiritual'' 100)),
         reward = [(''all_attributes'', 25)]\<rparr>]),
     (''consistency_king'', ''Consistency King'',
       [\<lparr>stage_name = ''Habit Former'',
         requirement = (\<lambda>ud. Inr (streak ud \<ge> 7)),
         reward = [(''streak_multiplier'', 11 / 10)]\<rparr>,
        \<lparr>stage_name = ''Routine Master'',
         requirement = py_and (\<lambda>ud. Inr (streak ud \<ge> 30)) (check_task_completion_rate (8 / 10)),
         reward = [(''streak_multiplier'', 12 / 10)]\<rparr>,
        \<lparr>stage_name = ''Living Legend'',
         requirement = py_and (\<lambda>ud. Inr (streak ud \<ge> 100)) (check_task_completion_rate (9 / 10)),
         reward = [(''streak_multiplier'', 15 / 10), (''all_attributes'', 50)]\<rparr>])]"

text \<open>
  \<^verbatim>\<open>load_chain_progress\<close>: when the session has no chains yet, one fresh
  \<^verbatim>\<open>AchievementChain\<close> per catalogue entry.
\<close>

definition new_chain :: "string \<times> string \<times> stage list \<Rightarrow> string \<times> chain" where
  "new_chain e =
     (fst e, \<lparr>chain_id = fst e, chain_name = fst (snd e), stages = snd (snd e), current_stage = 0,
              chain_completed = False, started_at = None, chain_completed_at = None\<rparr>)"

definition load_chain_progress :: "chain pydict option \<Rightarrow> chain pydict" where
  "load_chain_progress stored = (case stored of None \<Rightarrow> map new_chain chains | Some cs \<Rightarrow> cs)"

text \<open>One pass of the \<^verbatim>\<open>else\<close> loop of \<^verbatim>\<open>grant_stage_rewards\<close>.\<close>

definition grant_one :: "string \<times> num \<Rightarrow> user_data \<Rightarrow> user_data" where
  "grant_one r ud =
     (case map_of (attributes ud) (fst r) of
        Some v \<Rightarrow> ud\<lparr>attributes := AList.update (fst r) (v + snd r) (attributes ud)\<rparr>
      | None \<Rightarrow>
          if fst r = ''streak_multiplier''
          then ud\<lparr>multipliers :=
                    Some (AList.update ''streak'' (snd r)
                            (case multipliers ud of None \<Rightarrow> [] | Some m \<Rightarrow> m))\<rparr>
          else ud)"

definition grant_stage_rewards :: "num pydict \<Rightarrow> user_data \<Rightarrow> user_data" where
  "grant_stage_rewards rewards ud =
     (case map_of rewards ''all_attributes'' of
        Some amount \<Rightarrow> ud\<lparr>attributes := map (\<lambda>(attr, v). (attr, v + amount)) (attributes ud)\<rparr>
      | None \<Rightarrow> fold grant_one rewards ud)"

text \<open>
  \<^verbatim>\<open>check_chain_progress\<close> has no handler of its own: an \<open>IndexError\<close> from
  \<^verbatim>\<open>chain.stages[chain.current_stage]\<close> or an error of the condition leaves the function
  after \<^verbatim>\<open>started_at\<close> was stamped. One reading of the clock serves the whole evaluation.
\<close>

definition check_chain_progress :: "datetime \<Rightarrow> chain \<Rightarrow> user_data \<Rightarrow> py_error option \<times> chain \<times> user_data" where
  "check_chain_progress now c ud =
     (let c1 = (if started_at c = None then c\<lparr>started_at := Some now\<rparr> else c)
      in if current_stage c1 \<ge> length (stages c1) then (Some IndexError, c1, ud)
         else
           let stg = stages c1 ! current_stage c1
           in (case requirement stg ud of
                 Inl e \<Rightarrow> (Some e, c1, ud)
               | Inr b \<Rightarrow>
                   if b then
                     let ud' = grant_stage_rewards (reward stg) ud;
                         c2 = c1\<lparr>current_stage := current_stage c1 + 1\<rparr>;
                         c3 = (if current_stage c2 \<ge> length (stages c2)
                               then c2\<lparr>chain_completed := True, chain_completed_at := Some now\<rparr>
                               else c2)
                     in (None, c3, ud')
                   else (None, c1, ud)))"

text \<open>
  \<^verbatim>\<open>check_chains\<close>: the chains of the session in order, the completed ones skipped; an
  error ends the loop and leaves the remaining chains untouched.
\<close>

fun check_chains :: "datetime \<Rightarrow> chain pydict \<Rightarrow> user_data \<Rightarrow> py_error option \<times> chain pydict \<times> user_data" where
  "check_chains now [] ud = (None, [], ud)"
| "check_chains now ((cid, c) # rest) ud =
     (if \<not> chain_completed c then
        (case check_chain_progress now c ud of
           (Some e, c', ud') \<Rightarrow> (Some e, (cid, c') # rest, ud')
         | (None, c', ud') \<Rightarrow>
             (case check_chains now rest ud' of
                (err, rest', ud'') \<Rightarrow> (err, (cid, c') # rest', ud'')))
      else
        (case check_chains now rest ud of
           (err, rest', ud') \<Rightarrow> (err, (cid, c) # rest', ud')))"

text \<open>
  A run of evaluations. The application calls \<^verbatim>\<open>check_chains\<close> once per cycle, on the user
  data of that moment; between two calls the rest of the application changes the user data
  at will, so every evaluation of a run comes with its own time and user data. The chains
  are the ones the previous evaluation left, also when it ended in an error.
\<close>

fun evaluations :: "(datetime \<times> user_data) list \<Rightarrow> chain pydict \<Rightarrow> chain pydict" where
  "evaluations [] cs = cs"
| "evaluations ((now, ud) # evs) cs = evaluations evs (fst (snd (check_chains now cs ud)))"

section \<open>Properties\<close>

subsection \<open>Severity tiers\<close>

text \<open>Without the precondition the fallback is reached: zero missed days match no tier.\<close>

lemma determine_severity_nonpositive:
  "determine_severity 0 =
     Inr (Fallback \<lparr>range = (8, Infinity), penalty = (6, 8), message = ''Critical Failure''\<rparr>)"
  by (simp add: determine_severity_def severity_levels_def)

lemma determine_severity_positive:
  assumes "1 \<le> missed_days"
  shows "determine_severity missed_days =
           Inr (if missed_days \<le> 3 then Severity 1 (1, 2) ''Minor Setback''
                else if missed_days \<le> 7 then Severity 2 (3, 5) ''Significant Decline''
                else Severity 3 (6, 8) ''Critical Failure'')"
  using assms by (simp add: determine_severity_def severity_levels_def)

text \<open>
  Claim C9. For every integer \<open>missed_days \<ge> 1\<close>, \<^verbatim>\<open>determine_severity\<close> returns the record
  with a level in \<open>{1, 2, 3}\<close> and the penalty range of the tier table (1-3 days: \<open>(1, 2)\<close>,
  4-7 days: \<open>(3, 5)\<close>, 8 days and more: \<open>(6, 8)\<close>); the fallback return, whose record has
  another shape, is not reached.
\<close>

theorem determine_severity_tiers:
  assumes "1 \<le> missed_days"
  shows "determine_severity missed_days =
           Inr (if missed_days \<le> 3 then Severity 1 (1, 2) ''Minor Setback''
                else if missed_days \<le> 7 then Severity 2 (3, 5) ''Significant Decline''
                else Severity 3 (6, 8) ''Critical Failure'')
         \<and> (\<forall>data. determine_severity missed_days \<noteq> Inr (Fallback data))"
  using determine_severity_positive [OF assms] by simp

theorem determine_severity_tiers_witness:
  "(1::int) \<le> 2 \<and> determine_severity 2 = Inr (Severity 1 (1, 2) ''Minor Setback'')
   \<and> (1::int) \<le> 5 \<and> determine_severity 5 = Inr (Severity 2 (3, 5) ''Significant Decline'')
   \<and> (1::int) \<le> 30 \<and> determine_severity 30 = Inr (Severity 3 (6, 8) ''Critical Failure'')"
  using determine_severity_tiers [of 2] determine_severity_tiers [of 5]
    determine_severity_tiers [of 30]
  by simp

subsection \<open>Ranks\<close>

lemma rank_loop_cases:
  "rank_loop rank_thresholds v 0 rank_thresholds (''E'', ''D'') =
     (if v < 85 then (''E'', ''D'')
      else if v < 170 then (''D'', ''C'')
      else if v < 255 then (''C'', ''B'')
      else if v < 340 then (''B'', ''A'')
      else if v < 425 then (''A'', ''S'')
      else if v < 510 then (''S'', ''SS'')
      else if v < 595 then (''SS'', ''SSS'')
      else (''SSS'', ''SSS''))"
  by (simp add: rank_thresholds_def)

lemma calculate_rank_cases:
  "calculate_rank v =
     (if v < 85 then Inr (''E'', ''D'', max 0 (min 1 (v / 85)))
      else if v < 170 then Inr (''D'', ''C'', max 0 (min 1 ((v - 85) / 85)))
      else if v < 255 then Inr (''C'', ''B'', max 0 (min 1 ((v - 170) / 85)))
      else if v < 340 then Inr (''B'', ''A'', max 0 (min 1 ((v - 255) / 85)))
      else if v < 425 then Inr (''A'', ''S'', max 0 (min 1 ((v - 340) / 85)))
      else if v < 510 then Inr (''S'', ''SS'', max 0 (min 1 ((v - 425) / 85)))
      else if v < 595 then Inr (''SS'', ''SSS'', max 0 (min 1 ((v - 510) / 85)))
      else Inr (''SSS'', ''SSS'', 1))"
  unfolding calculate_rank_def rank_loop_cases
  by (simp add: rank_thresholds_def)

lemma calculate_rank_bounds:
  "\<exists>cur nxt p. calculate_rank v = Inr (cur, nxt, p) \<and> 0 \<le> p \<and> p \<le> 1"
proof -
  let ?P = "\<lambda>r. \<exists>cur nxt p. r = Inr (cur, nxt, p) \<and> (0::rat) \<le> p \<and> p \<le> 1"
  have clamp: "\<And>c n x. ?P (Inr (c, n, max 0 (min 1 x)))"
    by simp
  have top: "?P (Inr (''SSS'', ''SSS'', 1))"
    by simp
  have ite: "\<And>b x y. ?P x \<Longrightarrow> ?P y \<Longrightarrow> ?P (if b then x else y)"
    by simp
  show ?thesis
    unfolding calculate_rank_cases by (intro ite clamp top)
qed

lemma calculate_rank_at_threshold:
  assumes "map_of rank_thresholds r = Some v" and "r \<noteq> ''SSS''"
  shows "\<exists>nxt. calculate_rank v = Inr (r, nxt, 0)"
proof -
  from assms have "(r = ''E'' \<and> v = 0) \<or> (r = ''D'' \<and> v = 85) \<or> (r = ''C'' \<and> v = 170)
      \<or> (r = ''B'' \<and> v = 255) \<or> (r = ''A'' \<and> v = 340) \<or> (r = ''S'' \<and> v = 425)
      \<or> (r = ''SS'' \<and> v = 510)"
    by (auto simp: rank_thresholds_def split: if_splits)
  then show ?thesis
    by (elim disjE conjE) (simp_all add: calculate_rank_cases)
qed

lemma calculate_rank_top:
  assumes "v \<ge> 595"
  shows "calculate_rank v = Inr (''SSS'', ''SSS'', 1)"
  using assms by (simp add: calculate_rank_cases)

text \<open>
  Claim C7, as amended. For every value the rank calculator returns a progress in \<open>[0, 1]\<close>;
  at the lower threshold of every rank below the top one (E to SS) it returns that rank
  with progress 0; from the SSS threshold on it returns SSS as current and next rank with
  progress 1.
\<close>

theorem calculate_rank_progress:
  "(\<exists>cur nxt p. calculate_rank v = Inr (cur, nxt, p) \<and> 0 \<le> p \<and> p \<le> 1)
   \<and> (map_of rank_thresholds r = Some v \<and> r \<noteq> ''SSS'' \<longrightarrow>
        (\<exists>nxt. calculate_rank v = Inr (r, nxt, 0)))
   \<and> (v \<ge> 595 \<longrightarrow> calculate_rank v = Inr (''SSS'', ''SSS'', 1))"
  using calculate_rank_bounds [of v] calculate_rank_at_threshold [of r v] calculate_rank_top [of v]
  by blast

theorem calculate_rank_progress_witness:
  "map_of rank_thresholds ''B'' = Some 255 \<and> ''B'' \<noteq> ''SSS''
   \<and> (\<exists>nxt. calculate_rank 255 = Inr (''B'', nxt, 0))
   \<and> (600::rat) \<ge> 595 \<and> calculate_rank 600 = Inr (''SSS'', ''SSS'', 1)"
  using calculate_rank_progress [of 255 "''B''"] calculate_rank_progress [of 600 "''B''"]
  by (simp add: rank_thresholds_def)

text \<open>
  Claim C7 as stated asks for progress 0 at the lower threshold of every rank. At the
  threshold of SSS the progress is 1.
\<close>

theorem calculate_rank_top_threshold:
  "map_of rank_thresholds ''SSS'' = Some 595
   \<and> calculate_rank 595 = Inr (''SSS'', ''SSS'', 1)
   \<and> calculate_rank 595 \<noteq> Inr (''SSS'', ''SSS'', 0)"
  by (simp add: calculate_rank_cases rank_thresholds_def)

subsection \<open>Completing tasks\<close>

text \<open>
  What \<^verbatim>\<open>complete_task\<close> adds to the attribute of the task: the base points times the job
  multiplier. The slots \<^verbatim>\<open>event\<close> and \<^verbatim>\<open>streak\<close> of \<^verbatim>\<open>multipliers\<close> are not read.
\<close>

lemma complete_task_points:
  assumes "map_of (tasks s) ttype = Some category"
    and "map_of category tid = Some t"
    and "\<not> is_completed t"
    and "attribute t = Some attr"
  shows "fst (complete_task now tid ttype s) = Completed
    \<and> map_of (attributes (user (snd (complete_task now tid ttype s)))) attr =
        Some (dict_get (attributes (user s)) attr 0
              + (case points t of None \<Rightarrow> 1 | Some p \<Rightarrow> p)
                * dict_get (case multipliers (user s) of None \<Rightarrow> [] | Some m \<Rightarrow> m) ''job'' 1)"
  using assms by (simp add: complete_task_def Let_def AList.update_conv')

text \<open>
  Claim C1 says that a completion adds the base points times the job, event and streak
  multipliers, 6 points for base points 2, job multiplier 1.5 and event multiplier 2. The
  program adds 3: the event multiplier, which the event "Double Points" installs under the
  description "All tasks give double points!", has no effect on the points.
\<close>

theorem complete_task_uses_job_multiplier_only:
  "complete_task 5 ''t1'' ''daily''
         \<lparr>user = (user (initialize_new_state 0))
                   \<lparr>multipliers := Some [(''streak'', 1), (''event'', 2), (''job'', 3 / 2)]\<rparr>,
          tasks = [(''daily'', [(''t1'', \<lparr>task_id = ''t1'', task_name = ''Run'', task_type = ''daily'',
                      attribute = Some ''Physical'', points = Some 2, completed = Some False,
                      completed_at = None, created_at = 0\<rparr>)])]\<rparr>
   = (Completed,
         \<lparr>user = (user (initialize_new_state 0))
                   \<lparr>attributes := [(''Health'', 0), (''Physical'', 3), (''Intelligence'', 0),
                            (''Spiritual'', 0), (''Creativity'', 0), (''Resilience'', 0)],
                    multipliers := Some [(''streak'', 1), (''event'', 2), (''job'', 3 / 2)]\<rparr>,
          tasks = [(''daily'', [(''t1'', \<lparr>task_id = ''t1'', task_name = ''Run'', task_type = ''daily'',
                      attribute = Some ''Physical'', points = Some 2, completed = Some True,
                      completed_at = Some 5, created_at = 0\<rparr>)])]\<rparr>)"
  by (simp add: complete_task_def initialize_new_state_def is_completed_def dict_get_def)

lemma complete_task_already_completed:
  assumes "map_of (tasks s) ttype = Some category"
    and "map_of category tid = Some t"
    and "is_completed t"
  shows "complete_task now tid ttype s = (AlreadyCompleted, s)"
  using assms by (simp add: complete_task_def)

lemma complete_task_marks:
  assumes "complete_task now tid ttype s = (Completed, s1)"
  shows "\<exists>category t. map_of (tasks s1) ttype = Some category \<and> map_of category tid = Some t
           \<and> is_completed t"
proof -
  from assms obtain category t where c: "map_of (tasks s) ttype = Some category"
    and t: "map_of category tid = Some t" and nc: "\<not> is_completed t"
    by (auto simp: complete_task_def split: option.splits if_splits)
  let ?t' = "t\<lparr>completed := Some True, completed_at := Some now\<rparr>"
  from assms c t nc
  have "tasks s1 = AList.update ttype (AList.update tid ?t' category) (tasks s)"
    by (auto simp: complete_task_def Let_def split: option.splits)
  then have "map_of (tasks s1) ttype = Some (AList.update tid ?t' category)"
    by (simp add: AList.update_conv')
  moreover have "map_of (AList.update tid ?t' category) tid = Some ?t'"
    by (simp add: AList.update_conv')
  moreover have "is_completed ?t'"
    by (simp add: is_completed_def)
  ultimately show ?thesis by blast
qed

text \<open>
  Claim C3. Completing a task twice never awards points twice: a call on a task that is
  already completed takes the branch of the warning "Task already completed!" and returns
  the state as it was (attributes, task record and everything else), and this is the
  branch of any call that follows a successful completion of the same task.
\<close>

theorem complete_task_no_double_award:
  "(\<forall>category t. map_of (tasks s) ttype = Some category \<and> map_of category tid = Some t
        \<and> is_completed t \<longrightarrow> complete_task now tid ttype s = (AlreadyCompleted, s))
   \<and> (complete_task now tid ttype s = (Completed, s1) \<longrightarrow>
        complete_task now' tid ttype s1 = (AlreadyCompleted, s1))"
  using complete_task_already_completed complete_task_marks by blast

theorem complete_task_no_double_award_witness:
  "complete_task 5 ''t1'' ''daily''
      ((initialize_new_state 0)\<lparr>tasks := [(''daily'', [(''t1'',
          \<lparr>task_id = ''t1'', task_name = ''Run'', task_type = ''daily'',
           attribute = Some ''Physical'', points = Some 1, completed = Some False,
           completed_at = None, created_at = 0\<rparr>)])]\<rparr>)
     = (Completed,
        \<lparr>user = (user (initialize_new_state 0))
                  \<lparr>attributes := [(''Health'', 0), (''Physical'', 1), (''Intelligence'', 0),
                                  (''Spiritual'', 0), (''Creativity'', 0), (''Resilience'', 0)]\<rparr>,
         tasks = [(''daily'', [(''t1'',
          \<lparr>task_id = ''t1'', task_name = ''Run'', task_type = ''daily'',
           attribute = Some ''Physical'', points = Some 1, completed = Some True,
           completed_at = Some 5, created_at = 0\<rparr>)])]\<rparr>)
   \<and> complete_task 9 ''t1'' ''daily''
        \<lparr>user = (user (initialize_new_state 0))
                  \<lparr>attributes := [(''Health'', 0), (''Physical'', 1), (''Intelligence'', 0),
                                  (''Spiritual'', 0), (''Creativity'', 0), (''Resilience'', 0)]\<rparr>,
         tasks = [(''daily'', [(''t1'',
          \<lparr>task_id = ''t1'', task_name = ''Run'', task_type = ''daily'',
           attribute = Some ''Physical'', points = Some 1, completed = Some True,
           completed_at = Some 5, created_at = 0\<rparr>)])]\<rparr>
     = (AlreadyCompleted,
        \<lparr>user = (user (initialize_new_state 0))
                  \<lparr>attributes := [(''Health'', 0), (''Physical'', 1), (''Intelligence'', 0),
                                  (''Spiritual'', 0), (''Creativity'', 0), (''Resilience'', 0)]\<rparr>,
         tasks = [(''daily'', [(''t1'',
          \<lparr>task_id = ''t1'', task_name = ''Run'', task_type = ''daily'',
           attribute = Some ''Physical'', points = Some 1, completed = Some True,
           completed_at = Some 5, created_at = 0\<rparr>)])]\<rparr>)"
  using complete_task_no_double_award
    [of "(initialize_new_state 0)\<lparr>tasks := [(''daily'', [(''t1'',
          \<lparr>task_id = ''t1'', task_name = ''Run'', task_type = ''daily'',
           attribute = Some ''Physical'', points = Some 1, completed = Some False,
           completed_at = None, created_at = 0\<rparr>)])]\<rparr>"
        "''daily''" "''t1''" 5
        "\<lparr>user = (user (initialize_new_state 0))
                  \<lparr>attributes := [(''Health'', 0), (''Physical'', 1), (''Intelligence'', 0),
                                  (''Spiritual'', 0), (''Creativity'', 0), (''Resilience'', 0)]\<rparr>,
         tasks = [(''daily'', [(''t1'',
          \<lparr>task_id = ''t1'', task_name = ''Run'', task_type = ''daily'',
           attribute = Some ''Physical'', points = Some 1, completed = Some True,
           completed_at = Some 5, created_at = 0\<rparr>)])]\<rparr>" 9]
  by (simp add: complete_task_def initialize_new_state_def is_completed_def dict_get_def)

subsection \<open>Removing tasks\<close>

lemma remove_task_absent_id:
  assumes "map_of (tasks s) ttype = Some category" and "map_of category tid = None"
  shows "remove_task tid ttype s = (Some KeyError, s)"
  using assms by (simp add: remove_task_def)

lemma remove_task_absent_category:
  assumes "map_of (tasks s) ttype = None"
  shows "remove_task tid ttype s = (None, s)"
  using assms by (simp add: remove_task_def)

lemma remove_task_present:
  assumes "map_of (tasks s) ttype = Some category" and "map_of category tid = Some t"
  shows "remove_task tid ttype s =
           (None, s\<lparr>tasks := AList.update ttype (AList.delete tid category) (tasks s)\<rparr>)"
  using assms by (simp add: remove_task_def)

lemma remove_task_again:
  assumes "map_of (tasks s) ttype = Some category"
  shows "remove_task tid ttype (snd (remove_task tid ttype s)) =
           (Some KeyError, snd (remove_task tid ttype s))"
proof (cases "map_of category tid")
  case None
  with assms show ?thesis by (simp add: remove_task_def)
next
  case (Some t)
  with assms show ?thesis
    by (simp add: remove_task_def AList.update_conv' AList.delete_conv')
qed

text \<open>
  What \<^verbatim>\<open>remove_task\<close> does in each of its cases: a silent no-op for a category that does
  not exist, a caught \<open>KeyError\<close> with the state untouched for an id that is not in its
  category, the deletion of the entry otherwise; a second removal of the same id is
  therefore always the \<open>KeyError\<close> case.
\<close>

lemma remove_task_cases:
  "(map_of (tasks s) ttype = None \<longrightarrow> remove_task tid ttype s = (None, s))
   \<and> (\<forall>category. map_of (tasks s) ttype = Some category \<and> map_of category tid = None \<longrightarrow>
        remove_task tid ttype s = (Some KeyError, s))
   \<and> (\<forall>category t. map_of (tasks s) ttype = Some category \<and> map_of category tid = Some t \<longrightarrow>
        remove_task tid ttype s =
          (None, s\<lparr>tasks := AList.update ttype (AList.delete tid category) (tasks s)\<rparr>))
   \<and> (\<forall>category. map_of (tasks s) ttype = Some category \<longrightarrow>
        remove_task tid ttype (snd (remove_task tid ttype s)) =
          (Some KeyError, snd (remove_task tid ttype s)))"
  using remove_task_absent_id remove_task_absent_category remove_task_present remove_task_again
  by blast

text \<open>
  Claim C8 says that removing an id that is absent from its category, a second removal of
  the same id included, produces no error and leaves the state unchanged. The state is
  unchanged, but the call ends in the handler: removing an id from the empty category
  \<^verbatim>\<open>daily\<close> of a fresh state raises \<open>KeyError\<close>, and so does the second of two removals of
  a task that the first one deleted. Only the category is guarded before the \<^verbatim>\<open>del\<close>; the
  sibling \<^verbatim>\<open>TaskTemplateManager.delete_template\<close> guards the id.
\<close>

theorem remove_task_absent_reports_error:
  "remove_task ''daily_1'' ''daily'' (initialize_new_state 0) = (Some KeyError, initialize_new_state 0)
   \<and> remove_task ''t1'' ''daily'' ((initialize_new_state 0)\<lparr>tasks := [(''daily'', [(''t1'',
          \<lparr>task_id = ''t1'', task_name = ''Run'', task_type = ''daily'',
           attribute = Some ''Physical'', points = Some 1, completed = Some False,
           completed_at = None, created_at = 0\<rparr>)])]\<rparr>)
       = (None, (initialize_new_state 0)\<lparr>tasks := [(''daily'', [])]\<rparr>)
   \<and> remove_task ''t1'' ''daily'' ((initialize_new_state 0)\<lparr>tasks := [(''daily'', [])]\<rparr>)
       = (Some KeyError, (initialize_new_state 0)\<lparr>tasks := [(''daily'', [])]\<rparr>)"
  by (simp add: remove_task_def initialize_new_state_def)

subsection \<open>Jobs\<close>

text \<open>
  The requirement of "Stray Dog" is keyed \<^verbatim>\<open>resilience\<close>, the attribute of the user state
  is \<^verbatim>\<open>Resilience\<close>: the lookup \<^verbatim>\<open>.get("resilience", 0)\<close> never finds it. With a key in
  lower case the job is offered, and accepting it installs the multiplier 1.1.
\<close>

lemma stray_dog_lowercase_key:
  "''Stray Dog'' \<in> set (get_available_jobs ((user (initialize_new_state 0))
       \<lparr>attributes := [(''resilience'', 50)]\<rparr>))"
  by (simp add: get_available_jobs_def jobs_def mk_job_def check_job_requirements_def dict_get_def
      initialize_new_state_def)

lemma accept_stray_dog:
  "multipliers ud = Some m \<Longrightarrow>
   accept_job now ''Stray Dog'' ud =
     (None, ud\<lparr>current_job := Some ''Stray Dog'',
               job_history := Some ((case job_history ud of None \<Rightarrow> [] | Some h \<Rightarrow> h) @ [(''Stray Dog'', now)]),
               multipliers := Some (AList.update ''job'' (11 / 10) m)\<rparr>)"
  by (simp add: accept_job_def jobs_def mk_job_def)

text \<open>
  Claim C2 says that "Stray Dog" is offered when Resilience is 50. With the attribute
  names of \<^verbatim>\<open>initialize_new_state\<close> and Resilience at 50, \<^verbatim>\<open>get_available_jobs\<close> offers
  "Master of None" only.
\<close>

theorem stray_dog_never_available:
  "get_available_jobs ((user (initialize_new_state 0))
       \<lparr>attributes := [(''Health'', 0), (''Physical'', 0), (''Intelligence'', 0),
                       (''Spiritual'', 0), (''Creativity'', 0), (''Resilience'', 50)]\<rparr>)
     = [''Master of None'']
   \<and> ''Stray Dog'' \<notin> set (get_available_jobs ((user (initialize_new_state 0))
       \<lparr>attributes := [(''Health'', 0), (''Physical'', 0), (''Intelligence'', 0),
                       (''Spiritual'', 0), (''Creativity'', 0), (''Resilience'', 50)]\<rparr>))"
  by (simp add: get_available_jobs_def jobs_def mk_job_def check_job_requirements_def dict_get_def
      initialize_new_state_def)

subsection \<open>The inactivity penalty\<close>

lemma nonneg_update:
  assumes "\<forall>v \<in> snd ` set al. (0::rat) \<le> v" and "0 \<le> x"
  shows "\<forall>v \<in> snd ` set (AList.update k x al). 0 \<le> v"
  using assms by (induction al) auto

lemma nonneg_clamp_all:
  "\<forall>v \<in> snd ` set (map (\<lambda>(attr, current_value). (attr, max 0 (current_value - d))) al). (0::rat) \<le> v"
  by (induction al) auto

lemma apply_penalties_nonneg:
  assumes "apply_penalties rnd sev ud = Inr ud'"
    and "\<forall>v \<in> snd ` set (attributes ud). 0 \<le> v"
  shows "\<forall>v \<in> snd ` set (attributes ud'). 0 \<le> v"
proof (cases sev)
  case (Fallback data)
  with assms show ?thesis by (simp add: apply_penalties_def)
next
  case (Severity lvl pr msg)
  show ?thesis
  proof (cases "randint (fst pr) (snd pr) (randint_draw rnd)")
    case (Inl e)
    with assms Severity show ?thesis by (simp add: apply_penalties_def)
  next
    case (Inr p)
    show ?thesis
    proof (cases "random_draw rnd < 7 / 10")
      case True
      with assms(1) Severity Inr obtain attr where upd:
        "attributes ud' =
           AList.update attr (max 0 (dict_get (attributes ud) attr 0 - of_int p)) (attributes ud)"
        by (auto simp: apply_penalties_def Let_def split: sum.splits)
      have clamped: "(0::rat) \<le> max 0 (dict_get (attributes ud) attr 0 - of_int p)"
        by simp
      show ?thesis
        unfolding upd by (rule nonneg_update [OF assms(2) clamped])
    next
      case False
      with assms(1) Severity Inr
      have "attributes ud' =
              map (\<lambda>(attr, current_value).
                     (attr, max 0 (current_value - of_int p / of_nat (length (attributes ud)))))
                (attributes ud)"
        by (auto simp: apply_penalties_def Let_def split: if_splits)
      then show ?thesis
        using nonneg_clamp_all by metis
    qed
  qed
qed

lemma penalty_phase_nonneg:
  assumes "penalty_phase now rnd d ts ud = Inr ud'"
    and "\<forall>v \<in> snd ` set (attributes ud). 0 \<le> v"
  shows "\<forall>v \<in> snd ` set (attributes ud'). 0 \<le> v"
  using assms
  by (auto simp: penalty_phase_def Let_def split: if_splits sum.splits
      dest: apply_penalties_nonneg)

lemma update_tasks_attributes:
  "attributes (user (snd (update_tasks reset now rnd s))) = attributes (user s)
   \<or> (\<exists>d ud. penalty_phase now rnd d (tasks s) (user s) = Inr ud
         \<and> attributes (user (snd (update_tasks reset now rnd s))) = attributes ud)"
  by (auto simp: update_tasks_def Let_def split: sum.splits option.splits prod.splits)

text \<open>
  Claim C5. From a state whose attribute values are all \<open>\<ge> 0\<close>, whatever the draws (the
  penalty magnitude, the branch, the attribute chosen), the time and the task store are,
  every attribute value is \<open>\<ge> 0\<close> after \<^verbatim>\<open>update_tasks\<close>.
\<close>

theorem update_tasks_nonnegative:
  assumes "\<forall>v \<in> snd ` set (attributes (user s)). 0 \<le> v"
  shows "\<forall>v \<in> snd ` set (attributes (user (snd (update_tasks reset now rnd s)))). 0 \<le> v"
  using update_tasks_attributes [of reset now rnd s] assms penalty_phase_nonneg
  by metis

theorem update_tasks_nonnegative_witness:
  "snd ` set [(''Health'', 0), (''Physical'', 3 / 2), (''Intelligence'', 5 :: rat)] \<subseteq> {v. 0 \<le> v}
   \<and> attributes (user (snd (update_tasks (\<lambda>_ _ ts. (Some AttributeError, ts)) 172800000001
        \<lparr>randint_draw = 1, random_draw = 0, choice_draw = 1\<rparr>
        \<lparr>user = (user (initialize_new_state 0))
                  \<lparr>attributes := [(''Health'', 0), (''Physical'', 3 / 2), (''Intelligence'', 5)]\<rparr>,
         tasks = [(''daily'', [(''t1'',
          \<lparr>task_id = ''t1'', task_name = ''Run'', task_type = ''daily'',
           attribute = Some ''Physical'', points = Some 1, completed = Some False,
           completed_at = None, created_at = 0\<rparr>)])]\<rparr>)))
      = [(''Health'', 0), (''Physical'', 0), (''Intelligence'', 5)]
   \<and> snd ` set [(''Health'', 0), (''Physical'', 0), (''Intelligence'', 5 :: rat)] \<subseteq> {v. 0 \<le> v}"
  using update_tasks_nonnegative
    [of "\<lparr>user = (user (initialize_new_state 0))
                  \<lparr>attributes := [(''Health'', 0), (''Physical'', 3 / 2), (''Intelligence'', 5)]\<rparr>,
         tasks = [(''daily'', [(''t1'',
          \<lparr>task_id = ''t1'', task_name = ''Run'', task_type = ''daily'',
           attribute = Some ''Physical'', points = Some 1, completed = Some False,
           completed_at = None, created_at = 0\<rparr>)])]\<rparr>"
        "\<lambda>_ _ ts. (Some AttributeError, ts)" 172800000001
        "\<lparr>randint_draw = 1, random_draw = 0, choice_draw = 1\<rparr>"]
  by (simp add: update_tasks_def penalty_phase_def apply_penalties_def incomplete_tasks_def
      is_completed_def determine_severity_def severity_levels_def randint_def choice_def
      dict_get_def date_of_def usec_per_day_def default_makeup_deadline_def
      initialize_new_state_def)

lemma incomplete_tasks_nonempty:
  assumes "(ttype, category) \<in> set ts" and "(tid, t) \<in> set category" and "\<not> is_completed t"
  shows "incomplete_tasks ts \<noteq> []"
proof -
  from assms(2,3) have "t \<in> set (filter (\<lambda>t. \<not> is_completed t) (map snd category))"
    by force
  with assms(1) have "t \<in> set (incomplete_tasks ts)"
    unfolding incomplete_tasks_def by force
  then show ?thesis by auto
qed

lemma randint_tier1:
  "\<exists>p. randint 1 2 n = Inr p \<and> 1 \<le> p \<and> p \<le> 2"
  by (simp add: randint_def)

lemma choice_member:
  assumes "xs \<noteq> []"
  shows "\<exists>x \<in> set xs. choice xs n = Inr x"
  using assms by (simp add: choice_def)

lemma apply_penalties_tier1:
  assumes "attributes ud \<noteq> []"
  shows "\<exists>p. 1 \<le> p \<and> p \<le> 2 \<and>
     (if random_draw rnd < 7 / 10
      then \<exists>attr \<in> fst ` set (attributes ud).
             apply_penalties rnd (Severity 1 (1, 2) msg) ud =
               Inr (ud\<lparr>attributes :=
                     AList.update attr (max 0 (dict_get (attributes ud) attr 0 - of_int p))
                       (attributes ud)\<rparr>)
      else apply_penalties rnd (Severity 1 (1, 2) msg) ud =
             Inr (ud\<lparr>attributes :=
                   map (\<lambda>(attr, v). (attr, max 0 (v - of_int p / of_nat (length (attributes ud)))))
                     (attributes ud)\<rparr>))"
proof -
  obtain p where p: "randint 1 2 (randint_draw rnd) = Inr p" "1 \<le> p" "p \<le> 2"
    using randint_tier1 by blast
  from assms have "map fst (attributes ud) \<noteq> []"
    by simp
  from choice_member [OF this, of "choice_draw rnd"]
  obtain attr where a: "attr \<in> set (map fst (attributes ud))"
      "choice (map fst (attributes ud)) (choice_draw rnd) = Inr attr"
    by blast
  show ?thesis
  proof (cases "random_draw rnd < 7 / 10")
    case True
    with p a show ?thesis
      by (intro exI [of _ p]) (auto simp: apply_penalties_def)
  next
    case False
    with p assms show ?thesis
      by (intro exI [of _ p]) (simp add: apply_penalties_def)
  qed
qed

lemma update_tasks_user:
  assumes "penalty_phase now rnd (date_of now - date_of la) (tasks s) (user s) = Inr ud"
    and "last_active (user s) = Some la" and "0 < date_of now - date_of la"
  shows "attributes (user (snd (update_tasks reset now rnd s))) = attributes ud
       \<and> makeup_deadline (user (snd (update_tasks reset now rnd s))) = makeup_deadline ud"
  using assms by (auto simp: update_tasks_def Let_def split: option.splits prod.splits)

text \<open>
  Claim C4. When \<^verbatim>\<open>last_active\<close> lies two calendar days back, an incomplete task exists
  and no makeup deadline was ever set, the evaluation applies a penalty at once: no
  deadline is set, and a magnitude \<open>p\<close> from the tier-1 range \<open>[1, 2]\<close> is taken from one
  attribute (clamped at 0) or, divided by the number of attributes, from each of them.
  The clock is assumed to read later than the default deadline 2000-01-01T00:00:00, and
  the user to have at least one attribute.
\<close>

theorem update_tasks_two_days:
  assumes "last_active (user s) = Some la"
    and "date_of now - date_of la = 2"
    and "(ttype, category) \<in> set (tasks s)" and "(tid, t) \<in> set category" and "\<not> is_completed t"
    and "makeup_deadline (user s) = None"
    and "default_makeup_deadline < now"
    and "attributes (user s) \<noteq> []"
  shows "\<exists>p. 1 \<le> p \<and> p \<le> 2
     \<and> makeup_deadline (user (snd (update_tasks reset now rnd s))) = None
     \<and> (if random_draw rnd < 7 / 10
        then \<exists>attr \<in> fst ` set (attributes (user s)).
               attributes (user (snd (update_tasks reset now rnd s))) =
                 AList.update attr (max 0 (dict_get (attributes (user s)) attr 0 - of_int p))
                   (attributes (user s))
        else attributes (user (snd (update_tasks reset now rnd s))) =
               map (\<lambda>(attr, v). (attr, max 0 (v - of_int p / of_nat (length (attributes (user s))))))
                 (attributes (user s)))"
proof -
  have inc: "incomplete_tasks (tasks s) \<noteq> []"
    using assms(3-5) by (rule incomplete_tasks_nonempty)
  have sev: "determine_severity 2 = Inr (Severity 1 (1, 2) ''Minor Setback'')"
    using determine_severity_positive [of 2] by simp
  have phase: "penalty_phase now rnd (date_of now - date_of la) (tasks s) (user s) =
      apply_penalties rnd (Severity 1 (1, 2) ''Minor Setback'') (user s)"
    using inc sev assms(2,6,7) by (simp add: penalty_phase_def)
  obtain p where p: "1 \<le> p" "p \<le> 2" and
    branch: "if random_draw rnd < 7 / 10
      then \<exists>attr \<in> fst ` set (attributes (user s)).
             apply_penalties rnd (Severity 1 (1, 2) ''Minor Setback'') (user s) =
               Inr ((user s)\<lparr>attributes :=
                     AList.update attr (max 0 (dict_get (attributes (user s)) attr 0 - of_int p))
                       (attributes (user s))\<rparr>)
      else apply_penalties rnd (Severity 1 (1, 2) ''Minor Setback'') (user s) =
             Inr ((user s)\<lparr>attributes :=
                   map (\<lambda>(attr, v). (attr, max 0 (v - of_int p / of_nat (length (attributes (user s))))))
                     (attributes (user s))\<rparr>)"
    using apply_penalties_tier1 [OF assms(8)] by blast
  have d: "0 < date_of now - date_of la"
    using assms(2) by simp
  show ?thesis
  proof (cases "random_draw rnd < 7 / 10")
    case True
    with branch obtain attr where attr: "attr \<in> fst ` set (attributes (user s))"
      and ap: "apply_penalties rnd (Severity 1 (1, 2) ''Minor Setback'') (user s) =
               Inr ((user s)\<lparr>attributes :=
                     AList.update attr (max 0 (dict_get (attributes (user s)) attr 0 - of_int p))
                       (attributes (user s))\<rparr>)"
      by auto
    from update_tasks_user [OF _ assms(1) d, of rnd _ reset] phase ap assms(6) True p attr
    show ?thesis
      by (intro exI [of _ p]) auto
  next
    case False
    with branch have ap: "apply_penalties rnd (Severity 1 (1, 2) ''Minor Setback'') (user s) =
             Inr ((user s)\<lparr>attributes :=
                   map (\<lambda>(attr, v). (attr, max 0 (v - of_int p / of_nat (length (attributes (user s))))))
                     (attributes (user s))\<rparr>)"
      by simp
    from update_tasks_user [OF _ assms(1) d, of rnd _ reset] phase ap assms(6) False p
    show ?thesis
      by (intro exI [of _ p]) auto
  qed
qed

theorem update_tasks_two_days_witness:
  "date_of 172800000001 - date_of 0 = 2
   \<and> default_makeup_deadline < 172800000001
   \<and> update_tasks (\<lambda>_ _ ts. (Some AttributeError, ts)) 172800000001
        \<lparr>randint_draw = 1, random_draw = 0, choice_draw = 1\<rparr>
        \<lparr>user = (user (initialize_new_state 0))
                  \<lparr>attributes := [(''Health'', 0), (''Physical'', 5), (''Intelligence'', 5)]\<rparr>,
         tasks = [(''daily'', [(''t1'',
          \<lparr>task_id = ''t1'', task_name = ''Run'', task_type = ''daily'',
           attribute = Some ''Physical'', points = Some 1, completed = Some False,
           completed_at = None, created_at = 0\<rparr>)])]\<rparr>
      = (Some AttributeError,
         \<lparr>user = (user (initialize_new_state 0))
                  \<lparr>attributes := [(''Health'', 0), (''Physical'', 3), (''Intelligence'', 5)]\<rparr>,
         tasks = [(''daily'', [(''t1'',
          \<lparr>task_id = ''t1'', task_name = ''Run'', task_type = ''daily'',
           attribute = Some ''Physical'', points = Some 1, completed = Some False,
           completed_at = None, created_at = 0\<rparr>)])]\<rparr>)"
  using update_tasks_two_days
    [of "\<lparr>user = (user (initialize_new_state 0))
                  \<lparr>attributes := [(''Health'', 0), (''Physical'', 5), (''Intelligence'', 5)]\<rparr>,
         tasks = [(''daily'', [(''t1'',
          \<lparr>task_id = ''t1'', task_name = ''Run'', task_type = ''daily'',
           attribute = Some ''Physical'', points = Some 1, completed = Some False,
           completed_at = None, created_at = 0\<rparr>)])]\<rparr>"
        0 172800000001 "''daily''"
        "[(''t1'',
          \<lparr>task_id = ''t1'', task_name = ''Run'', task_type = ''daily'',
           attribute = Some ''Physical'', points = Some 1, completed = Some False,
           completed_at = None, created_at = 0\<rparr>)]"
        "''t1''"
        "\<lparr>task_id = ''t1'', task_name = ''Run'', task_type = ''daily'',
           attribute = Some ''Physical'', points = Some 1, completed = Some False,
           completed_at = None, created_at = 0\<rparr>"
        "\<lambda>_ _ ts. (Some AttributeError, ts)"
        "\<lparr>randint_draw = 1, random_draw = 0, choice_draw = 1\<rparr>"]
  by (simp add: update_tasks_def penalty_phase_def apply_penalties_def incomplete_tasks_def
      is_completed_def determine_severity_def severity_levels_def randint_def choice_def
      dict_get_def date_of_def usec_per_day_def default_makeup_deadline_def
      initialize_new_state_def)

subsection \<open>Achievement chains\<close>

text \<open>A reward without the key \<^verbatim>\<open>all_attributes\<close> does install its streak multiplier.\<close>

lemma grant_stage_rewards_streak_only:
  "grant_stage_rewards [(''streak_multiplier'', 11 / 10)] (user (initialize_new_state 0))
     = (user (initialize_new_state 0))\<lparr>multipliers := Some [(''streak'', 11 / 10), (''event'', 1), (''job'', 1)]\<rparr>"
  by (simp add: grant_stage_rewards_def grant_one_def initialize_new_state_def)

text \<open>
  Claim C10. When the reward of a stage has the key \<^verbatim>\<open>all_attributes\<close>,
  \<^verbatim>\<open>grant_stage_rewards\<close> adds that amount to every attribute and reads no other key of the
  reward; the reward of the stage "Living Legend", \<^verbatim>\<open>{streak_multiplier: 1.5,
  all_attributes: 50}\<close>, adds 50 to every attribute and leaves the multipliers as they were.
\<close>

theorem grant_stage_rewards_all_attributes:
  "(map_of rewards ''all_attributes'' = Some amount \<longrightarrow>
      grant_stage_rewards rewards ud =
        ud\<lparr>attributes := map (\<lambda>(attr, v). (attr, v + amount)) (attributes ud)\<rparr>)
   \<and> (\<forall>c \<in> set chains. \<forall>stg \<in> set (snd (snd c)). stage_name stg = ''Living Legend'' \<longrightarrow>
        map_of (reward stg) ''streak_multiplier'' = Some (15 / 10)
        \<and> grant_stage_rewards (reward stg) ud =
            ud\<lparr>attributes := map (\<lambda>(attr, v). (attr, v + 50)) (attributes ud)\<rparr>
        \<and> multipliers (grant_stage_rewards (reward stg) ud) = multipliers ud)"
  by (simp add: grant_stage_rewards_def chains_def)

theorem grant_stage_rewards_all_attributes_witness:
  "map_of [(''streak_multiplier'', 15 / 10), (''all_attributes'', 50)] ''all_attributes'' = Some (50::rat)
   \<and> grant_stage_rewards [(''streak_multiplier'', 15 / 10), (''all_attributes'', 50)]
        (user (initialize_new_state 0))
      = (user (initialize_new_state 0))
          \<lparr>attributes := [(''Health'', 50), (''Physical'', 50), (''Intelligence'', 50),
                          (''Spiritual'', 50), (''Creativity'', 50), (''Resilience'', 50)]\<rparr>
   \<and> multipliers (grant_stage_rewards [(''streak_multiplier'', 15 / 10), (''all_attributes'', 50)]
        (user (initialize_new_state 0))) = Some [(''streak'', 1), (''event'', 1), (''job'', 1)]"
  using grant_stage_rewards_all_attributes
    [of "[(''streak_multiplier'', 15 / 10), (''all_attributes'', 50)]" 50 "user (initialize_new_state 0)"]
  by (simp add: initialize_new_state_def)

lemma check_chain_progress_step:
  "stages (fst (snd (check_chain_progress now c ud))) = stages c \<and>
   (current_stage (fst (snd (check_chain_progress now c ud))) = current_stage c
      \<and> chain_completed (fst (snd (check_chain_progress now c ud))) = chain_completed c
      \<and> snd (snd (check_chain_progress now c ud)) = ud
    \<or> current_stage c < length (stages c)
      \<and> requirement (stages c ! current_stage c) ud = Inr True
      \<and> current_stage (fst (snd (check_chain_progress now c ud))) = current_stage c + 1
      \<and> snd (snd (check_chain_progress now c ud)) =
          grant_stage_rewards (reward (stages c ! current_stage c)) ud)"
  by (auto simp: check_chain_progress_def Let_def split: sum.splits)

lemma check_chain_progress_bounds:
  assumes "check_chain_progress now c ud = (err, c', ud')"
  shows "stages c' = stages c \<and> current_stage c \<le> current_stage c'
       \<and> current_stage c' \<le> current_stage c + 1"
  using check_chain_progress_step [where now = now and c = c and ud = ud] assms by auto

lemma check_chains_one_step:
  "list_all2 (\<lambda>kc kc'. fst kc' = fst kc \<and> stages (snd kc') = stages (snd kc)
        \<and> current_stage (snd kc) \<le> current_stage (snd kc')
        \<and> current_stage (snd kc') \<le> current_stage (snd kc) + 1
        \<and> (chain_completed (snd kc) \<longrightarrow> kc' = kc))
     cs (fst (snd (check_chains now cs ud)))"
  (is "list_all2 ?R cs _")
proof (induction cs arbitrary: ud)
  case Nil
  show ?case by simp
next
  case (Cons kc cs)
  obtain k c where kc: "kc = (k, c)" by (cases kc)
  show ?case
  proof (cases "chain_completed c")
    case True
    with Cons [of ud] kc show ?thesis
      by (auto split: prod.splits)
  next
    case False
    obtain err c' ud' where step: "check_chain_progress now c ud = (err, c', ud')"
      by (cases "check_chain_progress now c ud") auto
    from check_chain_progress_bounds [OF step] False
    have hd: "?R (k, c) (k, c')"
      by simp
    show ?thesis
    proof (cases err)
      case None
      with step False kc hd Cons [of ud'] show ?thesis
        by (auto split: prod.splits)
    next
      case (Some e)
      have "list_all2 ?R cs cs"
        by (rule list_all2_refl) simp
      with Some step False kc hd show ?thesis
        by auto
    qed
  qed
qed

lemma check_chains_skips_completed:
  "fst (check_chains now cs ud) =
     fst (check_chains now (filter (\<lambda>kc. \<not> chain_completed (snd kc)) cs) ud)
   \<and> snd (snd (check_chains now cs ud)) =
     snd (snd (check_chains now (filter (\<lambda>kc. \<not> chain_completed (snd kc)) cs) ud))"
proof (induction cs arbitrary: ud)
  case Nil
  show ?case by simp
next
  case (Cons kc cs)
  obtain k c where kc: "kc = (k, c)" by (cases kc)
  show ?case
  proof (cases "chain_completed c")
    case True
    with Cons [of ud] kc show ?thesis
      by (auto split: prod.splits)
  next
    case False
    obtain err c' ud' where step: "check_chain_progress now c ud = (err, c', ud')"
      by (cases "check_chain_progress now c ud") auto
    show ?thesis
    proof (cases err)
      case None
      with step False kc Cons [of ud'] show ?thesis
        by (auto split: prod.splits)
    next
      case (Some e)
      with step False kc show ?thesis
        by auto
    qed
  qed
qed

lemma evaluations_monotone:
  "list_all2 (\<lambda>kc kc'. fst kc' = fst kc \<and> stages (snd kc') = stages (snd kc)
        \<and> current_stage (snd kc) \<le> current_stage (snd kc')
        \<and> (chain_completed (snd kc) \<longrightarrow> kc' = kc))
     cs (evaluations evs cs)"
  (is "list_all2 ?M cs _")
proof (induction evs arbitrary: cs)
  case Nil
  show ?case by (simp add: list_all2_refl)
next
  case (Cons ev evs)
  obtain now ud where ev: "ev = (now, ud)" by (cases ev)
  let ?cs1 = "fst (snd (check_chains now cs ud))"
  have "list_all2 ?M cs ?cs1"
    by (rule list_all2_mono [OF check_chains_one_step]) simp
  moreover have "list_all2 ?M ?cs1 (evaluations evs ?cs1)"
    by (rule Cons)
  ultimately have "list_all2 ?M cs (evaluations evs ?cs1)"
    by (rule list_all2_trans [rotated]) auto
  with ev show ?case by simp
qed

lemma check_chain_progress_decided:
  "(length (stages c) \<le> current_stage c \<longrightarrow>
      fst (check_chain_progress now c ud) = Some IndexError
      \<and> current_stage (fst (snd (check_chain_progress now c ud))) = current_stage c
      \<and> chain_completed (fst (snd (check_chain_progress now c ud))) = chain_completed c
      \<and> snd (snd (check_chain_progress now c ud)) = ud)
   \<and> (current_stage c < length (stages c) \<longrightarrow>
       (\<forall>e. requirement (stages c ! current_stage c) ud = Inl e \<longrightarrow>
          fst (check_chain_progress now c ud) = Some e
          \<and> current_stage (fst (snd (check_chain_progress now c ud))) = current_stage c
          \<and> chain_completed (fst (snd (check_chain_progress now c ud))) = chain_completed c
          \<and> snd (snd (check_chain_progress now c ud)) = ud)
       \<and> (requirement (stages c ! current_stage c) ud = Inr False \<longrightarrow>
          fst (check_chain_progress now c ud) = None
          \<and> current_stage (fst (snd (check_chain_progress now c ud))) = current_stage c
          \<and> chain_completed (fst (snd (check_chain_progress now c ud))) = chain_completed c
          \<and> snd (snd (check_chain_progress now c ud)) = ud)
       \<and> (requirement (stages c ! current_stage c) ud = Inr True \<longrightarrow>
          fst (check_chain_progress now c ud) = None
          \<and> current_stage (fst (snd (check_chain_progress now c ud))) = current_stage c + 1
          \<and> chain_completed (fst (snd (check_chain_progress now c ud))) =
              (chain_completed c \<or> length (stages c) \<le> current_stage c + 1)
          \<and> snd (snd (check_chain_progress now c ud)) =
              grant_stage_rewards (reward (stages c ! current_stage c)) ud))"
  by (auto simp: check_chain_progress_def Let_def)

lemma check_chain_progress_other_stages:
  assumes "length other = length (stages c)"
    and "current_stage c < length (stages c) \<longrightarrow>
           other ! current_stage c = stages c ! current_stage c"
  shows "check_chain_progress now (c\<lparr>stages := other\<rparr>) ud =
           (fst (check_chain_progress now c ud),
            (fst (snd (check_chain_progress now c ud)))\<lparr>stages := other\<rparr>,
            snd (snd (check_chain_progress now c ud)))"
  using assms by (auto simp: check_chain_progress_def Let_def split: sum.splits)

lemma check_chains_single:
  "check_chains now [(k, c)] ud =
     (if chain_completed c then (None, [(k, c)], ud)
      else (fst (check_chain_progress now c ud),
            [(k, fst (snd (check_chain_progress now c ud)))],
            snd (snd (check_chain_progress now c ud))))"
  by (auto split: prod.splits option.splits)

lemma check_chains_append:
  "check_chains now (cs @ ds) ud =
     (case fst (check_chains now cs ud) of
        Some e \<Rightarrow> (Some e, fst (snd (check_chains now cs ud)) @ ds,
                    snd (snd (check_chains now cs ud)))
      | None \<Rightarrow>
          (fst (check_chains now ds (snd (snd (check_chains now cs ud)))),
           fst (snd (check_chains now cs ud))
             @ fst (snd (check_chains now ds (snd (snd (check_chains now cs ud))))),
           snd (snd (check_chains now ds (snd (snd (check_chains now cs ud)))))))"
proof (induction cs arbitrary: ud)
  case Nil
  show ?case by (simp split: option.splits)
next
  case (Cons kc cs)
  obtain k c where kc: "kc = (k, c)" by (cases kc)
  show ?case
  proof (cases "chain_completed c")
    case True
    with Cons [of ud] kc show ?thesis
      by (simp split: prod.splits option.splits)
  next
    case False
    obtain err c' ud' where step: "check_chain_progress now c ud = (err, c', ud')"
      by (cases "check_chain_progress now c ud") auto
    show ?thesis
    proof (cases err)
      case None
      with step False kc Cons [of ud'] show ?thesis
        by (simp split: prod.splits option.splits)
    next
      case (Some e)
      with step False kc show ?thesis
        by simp
    qed
  qed
qed

lemma check_chains_other_stages:
  assumes "list_all2 (\<lambda>kc kd. fst kd = fst kc
        \<and> snd kd = (snd kc)\<lparr>stages := stages (snd kd)\<rparr>
        \<and> length (stages (snd kd)) = length (stages (snd kc))
        \<and> (current_stage (snd kc) < length (stages (snd kc)) \<longrightarrow>
             stages (snd kd) ! current_stage (snd kc) = stages (snd kc) ! current_stage (snd kc)))
     cs ds"
  shows "fst (check_chains now ds ud) = fst (check_chains now cs ud)
     \<and> snd (snd (check_chains now ds ud)) = snd (snd (check_chains now cs ud))
     \<and> list_all2 (\<lambda>kc kd. fst kd = fst kc \<and> snd kd = (snd kc)\<lparr>stages := stages (snd kd)\<rparr>)
          (fst (snd (check_chains now cs ud))) (fst (snd (check_chains now ds ud)))"
  using assms
proof (induction cs ds arbitrary: ud rule: list_all2_induct)
  case Nil
  show ?case by simp
next
  case (Cons kc cs kd ds)
  obtain k c where kc: "kc = (k, c)" by (cases kc)
  obtain k' d where kd: "kd = (k', d)" by (cases kd)
  from Cons.hyps(1) kc kd have k: "k' = k" and d: "d = c\<lparr>stages := stages d\<rparr>"
    and len: "length (stages d) = length (stages c)"
    and cur: "current_stage c < length (stages c) \<longrightarrow>
           stages d ! current_stage c = stages c ! current_stage c"
    by simp_all
  from d have compl: "chain_completed d = chain_completed c"
    by (metis chain.select_convs(5) chain.surjective chain.update_convs(3))
  have rest: "list_all2 (\<lambda>kc kd. fst kd = fst kc \<and> snd kd = (snd kc)\<lparr>stages := stages (snd kd)\<rparr>) cs ds"
    by (rule list_all2_mono [OF Cons.hyps(2)]) simp
  have hd: "fst (k, d) = fst (k, c) \<and> snd (k, d) = (snd (k, c))\<lparr>stages := stages (snd (k, d))\<rparr>"
    using d by simp
  show ?case
  proof (cases "chain_completed c")
    case True
    with compl kc kd k hd Cons.IH [of ud] show ?thesis
      by (auto split: prod.splits)
  next
    case False
    obtain err c' ud' where step: "check_chain_progress now c ud = (err, c', ud')"
      by (cases "check_chain_progress now c ud") auto
    from check_chain_progress_other_stages [OF len cur, of now ud] step d
    have step': "check_chain_progress now d ud = (err, c'\<lparr>stages := stages d\<rparr>, ud')"
      by simp
    show ?thesis
    proof (cases err)
      case None
      with step step' False compl kc kd k Cons.IH [of ud'] show ?thesis
        by (auto split: prod.splits)
    next
      case (Some e)
      with step step' False compl kc kd k rest show ?thesis
        by auto
    qed
  qed
qed

text \<open>
  Claim C6. One evaluation of a chain is decided by the stage at \<^verbatim>\<open>current_stage\<close> alone:
  when its condition is false or raises, the stage index, the completion flag and the user
  data stay as they were; when it holds, exactly the reward of that stage is granted and
  the index grows by one (the chain is marked completed when the index reaches the number
  of stages). Replacing every other stage of the chain, whatever its condition or reward,
  changes nothing in the outcome: later stages are never looked at, even when their
  conditions already hold. \<^verbatim>\<open>check_chains\<close> is this step on every chain that is not
  completed, in order, up to the first error: every chain keeps its key and stages, its
  index grows by at most one and never shrinks, a completed chain is returned as it was,
  and the error and the user data of the call are those of the call on the chains that are
  not completed, so a completed chain is not evaluated. Over any run of evaluations the
  index of every chain is non-decreasing and a completed chain stays as it was.
\<close>

theorem chain_monotonicity:
  "(stages (fst (snd (check_chain_progress now c ud))) = stages c \<and>
    (current_stage (fst (snd (check_chain_progress now c ud))) = current_stage c
       \<and> chain_completed (fst (snd (check_chain_progress now c ud))) = chain_completed c
       \<and> snd (snd (check_chain_progress now c ud)) = ud
     \<or> current_stage c < length (stages c)
       \<and> requirement (stages c ! current_stage c) ud = Inr True
       \<and> current_stage (fst (snd (check_chain_progress now c ud))) = current_stage c + 1
       \<and> snd (snd (check_chain_progress now c ud)) =
           grant_stage_rewards (reward (stages c ! current_stage c)) ud))
   \<and> list_all2 (\<lambda>kc kc'. fst kc' = fst kc \<and> stages (snd kc') = stages (snd kc)
          \<and> current_stage (snd kc) \<le> current_stage (snd kc')
          \<and> current_stage (snd kc') \<le> current_stage (snd kc) + 1
          \<and> (chain_completed (snd kc) \<longrightarrow> kc' = kc))
        cs (fst (snd (check_chains now cs ud)))
   \<and> fst (check_chains now cs ud) =
        fst (check_chains now (filter (\<lambda>kc. \<not> chain_completed (snd kc)) cs) ud)
   \<and> snd (snd (check_chains now cs ud)) =
        snd (snd (check_chains now (filter (\<lambda>kc. \<not> chain_completed (snd kc)) cs) ud))
   \<and> list_all2 (\<lambda>kc kc'. fst kc' = fst kc \<and> stages (snd kc') = stages (snd kc)
          \<and> current_stage (snd kc) \<le> current_stage (snd kc')
          \<and> (chain_completed (snd kc) \<longrightarrow> kc' = kc))
        cs (evaluations evs cs)
   \<and> (length (stages c) \<le> current_stage c \<longrightarrow>
        fst (check_chain_progress now c ud) = Some IndexError
        \<and> current_stage (fst (snd (check_chain_progress now c ud))) = current_stage c
        \<and> chain_completed (fst (snd (check_chain_progress now c ud))) = chain_completed c
        \<and> snd (snd (check_chain_progress now c ud)) = ud)
   \<and> (current_stage c < length (stages c) \<longrightarrow>
       (\<forall>e. requirement (stages c ! current_stage c) ud = Inl e \<longrightarrow>
          fst (check_chain_progress now c ud) = Some e
          \<and> current_stage (fst (snd (check_chain_progress now c ud))) = current_stage c
          \<and> chain_completed (fst (snd (check_chain_progress now c ud))) = chain_completed c
          \<and> snd (snd (check_chain_progress now c ud)) = ud)
       \<and> (requirement (stages c ! current_stage c) ud = Inr False \<longrightarrow>
          fst (check_chain_progress now c ud) = None
          \<and> current_stage (fst (snd (check_chain_progress now c ud))) = current_stage c
          \<and> chain_completed (fst (snd (check_chain_progress now c ud))) = chain_completed c
          \<and> snd (snd (check_chain_progress now c ud)) = ud)
       \<and> (requirement (stages c ! current_stage c) ud = Inr True \<longrightarrow>
          fst (check_chain_progress now c ud) = None
          \<and> current_stage (fst (snd (check_chain_progress now c ud))) = current_stage c + 1
          \<and> chain_completed (fst (snd (check_chain_progress now c ud))) =
              (chain_completed c \<or> length (stages c) \<le> current_stage c + 1)
          \<and> snd (snd (check_chain_progress now c ud)) =
              grant_stage_rewards (reward (stages c ! current_stage c)) ud))
   \<and> (length other = length (stages c)
        \<and> (current_stage c < length (stages c) \<longrightarrow>
             other ! current_stage c = stages c ! current_stage c) \<longrightarrow>
        check_chain_progress now (c\<lparr>stages := other\<rparr>) ud =
          (fst (check_chain_progress now c ud),
           (fst (snd (check_chain_progress now c ud)))\<lparr>stages := other\<rparr>,
           snd (snd (check_chain_progress now c ud))))
   \<and> check_chains now [(k, c)] ud =
        (if chain_completed c then (None, [(k, c)], ud)
         else (fst (check_chain_progress now c ud),
               [(k, fst (snd (check_chain_progress now c ud)))],
               snd (snd (check_chain_progress now c ud))))
   \<and> check_chains now (cs @ ds) ud =
        (case fst (check_chains now cs ud) of
           Some e \<Rightarrow> (Some e, fst (snd (check_chains now cs ud)) @ ds,
                       snd (snd (check_chains now cs ud)))
         | None \<Rightarrow>
             (fst (check_chains now ds (snd (snd (check_chains now cs ud)))),
              fst (snd (check_chains now cs ud))
                @ fst (snd (check_chains now ds (snd (snd (check_chains now cs ud))))),
              snd (snd (check_chains now ds (snd (snd (check_chains now cs ud)))))))
   \<and> (list_all2 (\<lambda>kc kd. fst kd = fst kc
          \<and> snd kd = (snd kc)\<lparr>stages := stages (snd kd)\<rparr>
          \<and> length (stages (snd kd)) = length (stages (snd kc))
          \<and> (current_stage (snd kc) < length (stages (snd kc)) \<longrightarrow>
               stages (snd kd) ! current_stage (snd kc) = stages (snd kc) ! current_stage (snd kc)))
        cs cs2 \<longrightarrow>
        fst (check_chains now cs2 ud) = fst (check_chains now cs ud)
        \<and> snd (snd (check_chains now cs2 ud)) = snd (snd (check_chains now cs ud))
        \<and> list_all2 (\<lambda>kc kd. fst kd = fst kc \<and> snd kd = (snd kc)\<lparr>stages := stages (snd kd)\<rparr>)
             (fst (snd (check_chains now cs ud))) (fst (snd (check_chains now cs2 ud))))"
proof -
  note a = check_chain_progress_step [of now c ud]
  note b = check_chains_one_step [of cs now ud]
  note c = check_chains_skips_completed [of now cs ud]
  note d = evaluations_monotone [of cs evs]
  note e = check_chain_progress_decided [of c now ud]
  have f: "length other = length (stages c)
        \<and> (current_stage c < length (stages c) \<longrightarrow>
             other ! current_stage c = stages c ! current_stage c) \<longrightarrow>
        check_chain_progress now (c\<lparr>stages := other\<rparr>) ud =
          (fst (check_chain_progress now c ud),
           (fst (snd (check_chain_progress now c ud)))\<lparr>stages := other\<rparr>,
           snd (snd (check_chain_progress now c ud)))"
    using check_chain_progress_other_stages [of other c now ud] by blast
  note g = check_chains_single [of now k c ud]
  note h = check_chains_append [of now cs ds ud]
  have i: "list_all2 (\<lambda>kc kd. fst kd = fst kc
          \<and> snd kd = (snd kc)\<lparr>stages := stages (snd kd)\<rparr>
          \<and> length (stages (snd kd)) = length (stages (snd kc))
          \<and> (current_stage (snd kc) < length (stages (snd kc)) \<longrightarrow>
               stages (snd kd) ! current_stage (snd kc) = stages (snd kc) ! current_stage (snd kc)))
        cs cs2 \<longrightarrow>
        fst (check_chains now cs2 ud) = fst (check_chains now cs ud)
        \<and> snd (snd (check_chains now cs2 ud)) = snd (snd (check_chains now cs ud))
        \<and> list_all2 (\<lambda>kc kd. fst kd = fst kc \<and> snd kd = (snd kc)\<lparr>stages := stages (snd kd)\<rparr>)
             (fst (snd (check_chains now cs ud))) (fst (snd (check_chains now cs2 ud)))"
    using check_chains_other_stages [of cs cs2 now ud] by blast
  show ?thesis
    by (intro conjI a [THEN conjunct1] a [THEN conjunct2] b c [THEN conjunct1]
        c [THEN conjunct2] d e [THEN conjunct1] e [THEN conjunct2] f g h i)
qed

theorem chain_monotonicity_witness:
  "map (\<lambda>kc. (current_stage (snd kc), chain_completed (snd kc)))
     (fst (snd (check_chains 7 (load_chain_progress None)
        ((user (initialize_new_state 0))
          \<lparr>attributes := [(''Health'', 0), (''Physical'', 600), (''Intelligence'', 0),
                          (''Spiritual'', 0), (''Creativity'', 0), (''Resilience'', 0)]\<rparr>))))
     = [(1, False), (0, False), (0, False)]
   \<and> attributes (snd (snd (check_chains 7 (load_chain_progress None)
        ((user (initialize_new_state 0))
          \<lparr>attributes := [(''Health'', 0), (''Physical'', 600), (''Intelligence'', 0),
                          (''Spiritual'', 0), (''Creativity'', 0), (''Resilience'', 0)]\<rparr>))))
     = [(''Health'', 0), (''Physical'', 610), (''Intelligence'', 0),
        (''Spiritual'', 0), (''Creativity'', 0), (''Resilience'', 0)]
   \<and> map (\<lambda>kc. (current_stage (snd kc), chain_completed (snd kc)))
       (evaluations
          [(7, ((user (initialize_new_state 0))
          \<lparr>attributes := [(''Health'', 0), (''Physical'', 600), (''Intelligence'', 0),
                          (''Spiritual'', 0), (''Creativity'', 0), (''Resilience'', 0)]\<rparr>)),
           (8, ((user (initialize_new_state 0))
          \<lparr>attributes := [(''Health'', 0), (''Physical'', 600), (''Intelligence'', 0),
                          (''Spiritual'', 0), (''Creativity'', 0), (''Resilience'', 0)]\<rparr>)),
           (9, ((user (initialize_new_state 0))
          \<lparr>attributes := [(''Health'', 0), (''Physical'', 600), (''Intelligence'', 0),
                          (''Spiritual'', 0), (''Creativity'', 0), (''Resilience'', 0)]\<rparr>)),
           (10, ((user (initialize_new_state 0))
          \<lparr>attributes := [(''Health'', 0), (''Physical'', 600), (''Intelligence'', 0),
                          (''Spiritual'', 0), (''Creativity'', 0), (''Resilience'', 0)]\<rparr>))]
          (load_chain_progress None))
     = [(3, True), (0, False), (0, False)]
   \<and> fst (check_chain_progress 7 (snd (hd (load_chain_progress None))) ((user (initialize_new_state 0))
          \<lparr>attributes := [(''Health'', 0), (''Physical'', 150), (''Intelligence'', 0),
                          (''Spiritual'', 0), (''Creativity'', 0), (''Resilience'', 0)]\<rparr>)) = None
   \<and> current_stage (fst (snd (check_chain_progress 7 (snd (hd (load_chain_progress None))) ((user (initialize_new_state 0))
          \<lparr>attributes := [(''Health'', 0), (''Physical'', 150), (''Intelligence'', 0),
                          (''Spiritual'', 0), (''Creativity'', 0), (''Resilience'', 0)]\<rparr>)))) = 1
   \<and> attributes (snd (snd (check_chain_progress 7 (snd (hd (load_chain_progress None))) ((user (initialize_new_state 0))
          \<lparr>attributes := [(''Health'', 0), (''Physical'', 150), (''Intelligence'', 0),
                          (''Spiritual'', 0), (''Creativity'', 0), (''Resilience'', 0)]\<rparr>))))
       = [(''Health'', 0), (''Physical'', 160), (''Intelligence'', 0),
          (''Spiritual'', 0), (''Creativity'', 0), (''Resilience'', 0)]
   \<and> current_stage (fst (snd (check_chain_progress 7
         ((snd (hd (load_chain_progress None)))\<lparr>stages := [hd (stages (snd (hd (load_chain_progress None)))),
           \<lparr>stage_name = ''Later'', requirement = (\<lambda>ud. Inr True), reward = [(''all_attributes'', 1000)]\<rparr>,
           \<lparr>stage_name = ''Last'', requirement = (\<lambda>ud. Inr True), reward = [(''all_attributes'', 1000)]\<rparr>]\<rparr>) ((user (initialize_new_state 0))
          \<lparr>attributes := [(''Health'', 0), (''Physical'', 150), (''Intelligence'', 0),
                          (''Spiritual'', 0), (''Creativity'', 0), (''Resilience'', 0)]\<rparr>)))) = 1
   \<and> attributes (snd (snd (check_chain_progress 7
         ((snd (hd (load_chain_progress None)))\<lparr>stages := [hd (stages (snd (hd (load_chain_progress None)))),
           \<lparr>stage_name = ''Later'', requirement = (\<lambda>ud. Inr True), reward = [(''all_attributes'', 1000)]\<rparr>,
           \<lparr>stage_name = ''Last'', requirement = (\<lambda>ud. Inr True), reward = [(''all_attributes'', 1000)]\<rparr>]\<rparr>) ((user (initialize_new_state 0))
          \<lparr>attributes := [(''Health'', 0), (''Physical'', 150), (''Intelligence'', 0),
                          (''Spiritual'', 0), (''Creativity'', 0), (''Resilience'', 0)]\<rparr>))))
       = [(''Health'', 0), (''Physical'', 160), (''Intelligence'', 0),
          (''Spiritual'', 0), (''Creativity'', 0), (''Resilience'', 0)]"
proof -
  let ?c = "(snd (hd (load_chain_progress None)))"
  let ?ud = "((user (initialize_new_state 0))
          \<lparr>attributes := [(''Health'', 0), (''Physical'', 150), (''Intelligence'', 0),
                          (''Spiritual'', 0), (''Creativity'', 0), (''Resilience'', 0)]\<rparr>)"
  let ?other = "[hd (stages (snd (hd (load_chain_progress None)))),
           \<lparr>stage_name = ''Later'', requirement = (\<lambda>ud. Inr True), reward = [(''all_attributes'', 1000)]\<rparr>,
           \<lparr>stage_name = ''Last'', requirement = (\<lambda>ud. Inr True), reward = [(''all_attributes'', 1000)]\<rparr>]"
  have run: "map (\<lambda>kc. (current_stage (snd kc), chain_completed (snd kc)))
     (fst (snd (check_chains 7 (load_chain_progress None)
        ((user (initialize_new_state 0))
          \<lparr>attributes := [(''Health'', 0), (''Physical'', 600), (''Intelligence'', 0),
                          (''Spiritual'', 0), (''Creativity'', 0), (''Resilience'', 0)]\<rparr>))))
     = [(1, False), (0, False), (0, False)]
   \<and> attributes (snd (snd (check_chains 7 (load_chain_progress None)
        ((user (initialize_new_state 0))
          \<lparr>attributes := [(''Health'', 0), (''Physical'', 600), (''Intelligence'', 0),
                          (''Spiritual'', 0), (''Creativity'', 0), (''Resilience'', 0)]\<rparr>))))
     = [(''Health'', 0), (''Physical'', 610), (''Intelligence'', 0),
        (''Spiritual'', 0), (''Creativity'', 0), (''Resilience'', 0)]
   \<and> map (\<lambda>kc. (current_stage (snd kc), chain_completed (snd kc)))
       (evaluations
          [(7, ((user (initialize_new_state 0))
          \<lparr>attributes := [(''Health'', 0), (''Physical'', 600), (''Intelligence'', 0),
                          (''Spiritual'', 0), (''Creativity'', 0), (''Resilience'', 0)]\<rparr>)),
           (8, ((user (initialize_new_state 0))
          \<lparr>attributes := [(''Health'', 0), (''Physical'', 600), (''Intelligence'', 0),
                          (''Spiritual'', 0), (''Creativity'', 0), (''Resilience'', 0)]\<rparr>)),
           (9, ((user (initialize_new_state 0))
          \<lparr>attributes := [(''Health'', 0), (''Physical'', 600), (''Intelligence'', 0),
                          (''Spiritual'', 0), (''Creativity'', 0), (''Resilience'', 0)]\<rparr>)),
           (10, ((user (initialize_new_state 0))
          \<lparr>attributes := [(''Health'', 0), (''Physical'', 600), (''Intelligence'', 0),
                          (''Spiritual'', 0), (''Creativity'', 0), (''Resilience'', 0)]\<rparr>))]
          (load_chain_progress None))
     = [(3, True), (0, False), (0, False)]"
    by (simp add: load_chain_progress_def chains_def new_chain_def check_chain_progress_def
        grant_stage_rewards_def grant_one_def attribute_at_least_def py_and_def
        check_task_completion_rate_def initialize_new_state_def)
  have base: "fst (check_chain_progress 7 ?c ?ud) = None
      \<and> current_stage (fst (snd (check_chain_progress 7 ?c ?ud))) = 1
      \<and> attributes (snd (snd (check_chain_progress 7 ?c ?ud)))
          = [(''Health'', 0), (''Physical'', 160), (''Intelligence'', 0),
             (''Spiritual'', 0), (''Creativity'', 0), (''Resilience'', 0)]"
    by (simp add: load_chain_progress_def chains_def new_chain_def check_chain_progress_def
        grant_stage_rewards_def grant_one_def attribute_at_least_def initialize_new_state_def)
  have same: "length ?other = length (stages ?c)
      \<and> (current_stage ?c < length (stages ?c) \<longrightarrow>
           ?other ! current_stage ?c = stages ?c ! current_stage ?c)"
    by (simp add: load_chain_progress_def chains_def new_chain_def)
  from same chain_monotonicity
    [where now = 7 and c = ?c and ud = ?ud and cs = "[]" and evs = "[]" and other = ?other
       and k = "''physical_mastery''" and ds = "[]" and ?cs2.0 = "[]"]
  have "check_chain_progress 7 (?c\<lparr>stages := ?other\<rparr>) ?ud =
          (fst (check_chain_progress 7 ?c ?ud),
           (fst (snd (check_chain_progress 7 ?c ?ud)))\<lparr>stages := ?other\<rparr>,
           snd (snd (check_chain_progress 7 ?c ?ud)))"
    by blast
  with base have "current_stage (fst (snd (check_chain_progress 7 (?c\<lparr>stages := ?other\<rparr>) ?ud))) = 1
      \<and> attributes (snd (snd (check_chain_progress 7 (?c\<lparr>stages := ?other\<rparr>) ?ud)))
          = [(''Health'', 0), (''Physical'', 160), (''Intelligence'', 0),
             (''Spiritual'', 0), (''Creativity'', 0), (''Resilience'', 0)]"
    by simp
  with run base show ?thesis
    by blast
qed

end
